theory Spec2Isabelle
  imports Complex_Main "HOL-Library.AList"
begin

section \<open>Data model\<close>

text \<open>
  The feature-extraction engine of the repository, embedded function by function.
  Python floats are idealised as real numbers (no rounding, no overflow); timestamps are
  real numbers of seconds. A pandas table of detections is the list of its rows, in the
  table's row order; a feature row (a Python dict) is an association list with distinct
  keys, kept in insertion order.
\<close>

record detection =
  camera_id :: int
  timestamp :: real
  object_class :: string
  confidence :: real
  bbox_x :: real
  bbox_y :: real
  bbox_w :: real
  bbox_h :: real
  track_id :: int

type_synonym window = "detection list"

text \<open>
  A value stored in a feature row: a number, a timestamp, or Python's None. (With
  floats read as reals no extractor computes a NaN; a missing cell of a pandas table is
  shown as \<open>NoneV\<close> too: to \<^verbatim>\<open>fillna\<close>, None and NaN are both missing values.)
\<close>

datatype cell = Num real | TimeV real | NoneV

datatype pyerror = TypeError

type_synonym row = "(string \<times> cell) list"

text \<open>\<^verbatim>\<open>row.update(d)\<close>: every key of d is written into row, in d's order.\<close>

definition dict_update :: "row \<Rightarrow> row \<Rightarrow> row" where
  "dict_update r d = foldl (\<lambda>acc kv. AList.update (fst kv) (snd kv) acc) r d"

definition is_person :: "detection \<Rightarrow> bool" where
  "is_person d = (object_class d = ''person'')"

section \<open>Protective-equipment extractor (epi_features.py)\<close>

datatype epi_slot = Helmet | Vest | Mask

definition YOLO_TO_EPI :: "(string \<times> (epi_slot \<times> bool)) list" where
  "YOLO_TO_EPI =
     [(''hardhat'', (Helmet, True)),
      (''no_hardhat'', (Helmet, False)),
      (''safety_vest'', (Vest, True)),
      (''no_safety_vest'', (Vest, False)),
      (''mask'', (Mask, True)),
      (''no_mask'', (Mask, False))]"

record person_epi =
  helmet :: "bool option"
  vest :: "bool option"
  mask :: "bool option"

definition no_epi :: person_epi where
  "no_epi = \<lparr>helmet = None, vest = None, mask = None\<rparr>"

fun set_slot :: "epi_slot \<Rightarrow> bool \<Rightarrow> person_epi \<Rightarrow> person_epi" where
  "set_slot Helmet v s = s\<lparr>helmet := Some v\<rparr>"
| "set_slot Vest v s = s\<lparr>vest := Some v\<rparr>"
| "set_slot Mask v s = s\<lparr>mask := Some v\<rparr>"

record EPIFeatures =
  epi_window_duration :: real
  persistent_threshold :: int
  consecutive_violation_count :: int

text \<open>The constructor: \<^verbatim>\<open>EPIFeatures(window_duration, persistent_threshold=3)\<close>.\<close>

definition EPIFeatures_init :: "real \<Rightarrow> int \<Rightarrow> EPIFeatures" where
  "EPIFeatures_init wd thr =
     \<lparr>epi_window_duration = wd, persistent_threshold = thr, consecutive_violation_count = 0\<rparr>"

definition epi_inside :: "detection \<Rightarrow> detection \<Rightarrow> bool" where
  "epi_inside p e =
     (let cx = bbox_x e + bbox_w e / 2;
          cy = bbox_y e + bbox_h e / 2
      in bbox_x p \<le> cx \<and> cx \<le> bbox_x p + bbox_w p \<and>
         bbox_y p \<le> cy \<and> cy \<le> bbox_y p + bbox_h p)"

text \<open>One turn of the inner loop over the equipment detections, for the person row p.\<close>

definition epi_inner_step :: "detection \<Rightarrow> person_epi \<Rightarrow> detection \<Rightarrow> person_epi" where
  "epi_inner_step p acc e =
     (if timestamp e \<noteq> timestamp p then acc
      else if \<not> epi_inside p e then acc
      else (case map_of YOLO_TO_EPI (object_class e) of
              None \<Rightarrow> acc
            | Some (epi_name, epi_value) \<Rightarrow> set_slot epi_name epi_value acc))"

text \<open>
  \<^verbatim>\<open>_associate_epi_to_persons\<close>: each person row first resets the entry of its track
  to three unknown slots, then every equipment detection of the same timestamp whose
  centre lies in the person's box overwrites one slot.
\<close>

definition associate_epi_to_persons :: "window \<Rightarrow> window \<Rightarrow> (int \<times> person_epi) list" where
  "associate_epi_to_persons df persons =
     (let epis = filter (\<lambda>d. object_class d \<in> set (map fst YOLO_TO_EPI)) df
      in foldl (\<lambda>result p.
                  AList.update (track_id p) (foldl (epi_inner_step p) no_epi epis) result)
               [] persons)"

text \<open>\<^verbatim>\<open>sum(xs) / len(xs) if xs else 0.0\<close> on a list of booleans.\<close>

definition compliance_ratio :: "bool list \<Rightarrow> real" where
  "compliance_ratio xs =
     (if xs = [] then 0 else real (length (filter (\<lambda>b. b) xs)) / real (length xs))"

definition epi_empty_features :: row where
  "epi_empty_features =
     [(''helmet_compliance_ratio'', Num 0),
      (''vest_compliance_ratio'', Num 0),
      (''mask_compliance_ratio'', Num 0),
      (''avg_epi_compliance'', Num 0),
      (''num_no_helmet_events'', Num 0),
      (''num_no_vest_events'', Num 0),
      (''num_no_mask_events'', Num 0),
      (''epi_violation_duration'', Num 0),
      (''persistent_epi_violation'', Num 0)]"

text \<open>The number of explicit non-compliance events of a window, per slot.\<close>

definition epi_violations :: "window \<Rightarrow> nat \<times> nat \<times> nat" where
  "epi_violations df =
     (let pe = map snd (associate_epi_to_persons df (filter is_person df))
      in (length (filter (\<lambda>p. helmet p = Some False) pe),
          length (filter (\<lambda>p. vest p = Some False) pe),
          length (filter (\<lambda>p. mask p = Some False) pe)))"

definition has_violation :: "window \<Rightarrow> bool" where
  "has_violation df =
     (case epi_violations df of (no_helmet, no_vest, no_mask) \<Rightarrow>
        no_helmet + no_vest + no_mask > 0)"

definition epi_extract :: "window \<Rightarrow> EPIFeatures \<Rightarrow> row \<times> EPIFeatures" where
  "epi_extract df self =
     (if df = [] then (epi_empty_features, self)
      else if filter is_person df = [] then (epi_empty_features, self)
      else
        (let pe = map snd (associate_epi_to_persons df (filter is_person df));
             helmet_ratio = compliance_ratio (List.map_filter helmet pe);
             vest_ratio = compliance_ratio (List.map_filter vest pe);
             mask_ratio = compliance_ratio (List.map_filter mask pe);
             avg_epi = (helmet_ratio + vest_ratio + mask_ratio) / 3;
             (no_helmet, no_vest, no_mask) = epi_violations df;
             count = (if has_violation df then consecutive_violation_count self + 1 else 0);
             self' = self\<lparr>consecutive_violation_count := count\<rparr>;
             persistent_violation = (count \<ge> persistent_threshold self);
             violation_duration = real_of_int count * epi_window_duration self
         in ([(''helmet_compliance_ratio'', Num helmet_ratio),
              (''vest_compliance_ratio'', Num vest_ratio),
              (''mask_compliance_ratio'', Num mask_ratio),
              (''avg_epi_compliance'', Num avg_epi),
              (''num_no_helmet_events'', Num (real no_helmet)),
              (''num_no_vest_events'', Num (real no_vest)),
              (''num_no_mask_events'', Num (real no_mask)),
              (''epi_violation_duration'', Num violation_duration),
              (''persistent_epi_violation'', Num (if persistent_violation then 1 else 0))],
             self')))"

text \<open>A detection of camera 1 with confidence 1, for concrete runs.\<close>

definition det :: "real \<Rightarrow> string \<Rightarrow> real \<Rightarrow> real \<Rightarrow> real \<Rightarrow> real \<Rightarrow> int \<Rightarrow> detection" where
  "det ts cls x y w h tid =
     \<lparr>camera_id = 1, timestamp = ts, object_class = cls, confidence = 1,
      bbox_x = x, bbox_y = y, bbox_w = w, bbox_h = h, track_id = tid\<rparr>"


text \<open>
  Concrete windows for the protective-equipment extractor: a person with a
  \<^verbatim>\<open>no_hardhat\<close> indicator inside its box, and a person alone.
\<close>

definition violation_window :: window where
  "violation_window = [det 0 ''person'' 0 0 10 20 1, det 0 ''no_hardhat'' 4 0 2 2 2]"


section \<open>Rounding and durations\<close>

text \<open>Python's \<^verbatim>\<open>round\<close>: to the nearest integer, a tie to the even one.\<close>

definition py_round :: "real \<Rightarrow> int" where
  "py_round x =
     (let f = \<lfloor>x\<rfloor>; d = x - of_int f
      in if d < 1 / 2 then f else if d > 1 / 2 then f + 1
         else if even f then f else f + 1)"

text \<open>
  A \<^verbatim>\<open>datetime\<close> is a number of seconds (it holds a whole number of microseconds), and
  so is a \<^verbatim>\<open>timedelta\<close>. \<^verbatim>\<open>timedelta(seconds=x)\<close> keeps whole microseconds only: x is
  rounded to the nearest microsecond, a tie to the even one. Adding a timedelta to a
  datetime and comparing datetimes are exact. (A duration beyond 999999999 days, for
  which Python raises OverflowError, is not modelled.)
\<close>

definition timedelta_seconds :: "real \<Rightarrow> real" where
  "timedelta_seconds x = of_int (py_round (x * 1000000)) / 1000000"

section \<open>Window generator (sliding_window.py)\<close>

text \<open>
  The detection repository is outside the repository's feature code: it is the field
  \<open>get_detections\<close>, from a camera filter and a time range to the loaded table.
\<close>

record SlidingWindow =
  get_detections :: "int list \<Rightarrow> real \<Rightarrow> real \<Rightarrow> window"
  sw_window_duration :: real
  sw_step :: real

text \<open>
  The \<^verbatim>\<open>while\<close> loop of \<^verbatim>\<open>generate\<close>. The generator is lazy, and with a step that
  is not positive it never ends; the first argument is the number of windows its consumer
  draws from it, and the result is the windows yielded within that many draws.
\<close>

fun generate_from :: "nat \<Rightarrow> window \<Rightarrow> real \<Rightarrow> real \<Rightarrow> real \<Rightarrow> real \<Rightarrow> window list" where
  "generate_from 0 df_all window_delta step_delta end_time current_start = []"
| "generate_from (Suc n) df_all window_delta step_delta end_time current_start =
     (if current_start + window_delta \<le> end_time
      then filter (\<lambda>d. timestamp d \<ge> current_start
                        \<and> timestamp d < current_start + window_delta) df_all
           # generate_from n df_all window_delta step_delta end_time
               (current_start + step_delta)
      else [])"

definition generate :: "nat \<Rightarrow> SlidingWindow \<Rightarrow> int list \<Rightarrow> real \<Rightarrow> real \<Rightarrow> window list" where
  "generate n self camera_ids start_time end_time =
     (let df_all = get_detections self camera_ids start_time end_time
      in if df_all = [] then []
         else
           (let current_start = start_time;
                window_delta = timedelta_seconds (sw_window_duration self);
                step_delta = timedelta_seconds (sw_step self)
            in generate_from n df_all window_delta step_delta end_time current_start))"

text \<open>A repository that holds three detections, at seconds 0, 4 and 12.\<close>

definition demo_window_source :: SlidingWindow where
  "demo_window_source =
     \<lparr>get_detections = (\<lambda>cams s e.
         [det 0 ''person'' 0 0 10 20 1, det 4 ''person'' 1 0 10 20 1,
          det 12 ''vehicle'' 50 50 30 30 2]),
      sw_window_duration = 10, sw_step = 5\<rparr>"

text \<open>
  A repository that holds one detection half a microsecond before second 1, read with
  windows of one second every third of a second.
\<close>

definition third_step_source :: SlidingWindow where
  "third_step_source =
     \<lparr>get_detections = (\<lambda>cams s e. [det (1999999 / 2000000) ''person'' 0 0 10 20 1]),
      sw_window_duration = 1, sw_step = 1 / 3\<rparr>"

section \<open>numpy helpers and bounded histories\<close>

text \<open>
  \<^verbatim>\<open>np.mean\<close>, \<^verbatim>\<open>np.std\<close> (population standard deviation) and \<^verbatim>\<open>np.clip\<close>.
  The extractors below call them on histories of at least two samples. (numpy divides
  a float by zero to inf or nan with a warning; HOL's \<open>x / 0\<close> is 0.)
\<close>

definition np_mean :: "real list \<Rightarrow> real" where
  "np_mean xs = sum_list xs / real (length xs)"

definition np_std :: "real list \<Rightarrow> real" where
  "np_std xs = sqrt (np_mean (map (\<lambda>x. \<bar>x - np_mean xs\<bar> ^ 2) xs))"

definition np_clip :: "real \<Rightarrow> real \<Rightarrow> real \<Rightarrow> real" where
  "np_clip x lo hi = min (max x lo) hi"

text \<open>The literal \<^verbatim>\<open>1e-6\<close>.\<close>

definition eps :: real where
  "eps = 1 / 1000000"

text \<open>
  \<^verbatim>\<open>deque(maxlen=n).append(x)\<close>: append on the right, then drop the leftmost element
  if the deque is longer than n.
\<close>

definition deque_append :: "nat \<Rightarrow> 'a list \<Rightarrow> 'a \<Rightarrow> 'a list" where
  "deque_append n xs x = (if length xs + 1 > n then tl (xs @ [x]) else xs @ [x])"

text \<open>\<^verbatim>\<open>d.get(key, default)\<close> on a feature row.\<close>

definition row_get :: "row \<Rightarrow> string \<Rightarrow> cell \<Rightarrow> cell" where
  "row_get r k d = (case map_of r k of None \<Rightarrow> d | Some v \<Rightarrow> v)"

text \<open>\<^verbatim>\<open>float(v)\<close>: a number stays, None and a timestamp raise TypeError.\<close>

fun py_float :: "cell \<Rightarrow> pyerror + real" where
  "py_float (Num v) = Inr v"
| "py_float (TimeV t) = Inl TypeError"
| "py_float NoneV = Inl TypeError"

text \<open>
  numpy on a deque of row values: arithmetic on a None or a timestamp raises TypeError,
  so the reduction is defined only when every value is a number.
\<close>

fun cell_num :: "cell \<Rightarrow> real option" where
  "cell_num (Num v) = Some v"
| "cell_num (TimeV t) = None"
| "cell_num NoneV = None"

definition np_numbers :: "cell list \<Rightarrow> pyerror + real list" where
  "np_numbers cs = (case those (map cell_num cs) of None \<Rightarrow> Inl TypeError | Some xs \<Rightarrow> Inr xs)"

text \<open>Sequencing of computations that may raise.\<close>

definition py_bind :: "pyerror + 'a \<Rightarrow> ('a \<Rightarrow> pyerror + 'b) \<Rightarrow> pyerror + 'b" where
  "py_bind m f = (case m of Inl e \<Rightarrow> Inl e | Inr v \<Rightarrow> f v)"

section \<open>Activity stability extractor (activity_stability_features.py)\<close>

record ActivityStabilityFeatures =
  stab_history_size :: nat
  speed_history :: "real list"
  stab_person_count_history :: "real list"
  motion_score_history :: "real list"

definition ActivityStabilityFeatures_init :: "nat \<Rightarrow> ActivityStabilityFeatures" where
  "ActivityStabilityFeatures_init history_size =
     \<lparr>stab_history_size = history_size, speed_history = [],
      stab_person_count_history = [], motion_score_history = []\<rparr>"

definition stab_update_history ::
  "real \<Rightarrow> real \<Rightarrow> real \<Rightarrow> ActivityStabilityFeatures \<Rightarrow> ActivityStabilityFeatures" where
  "stab_update_history avg_speed num_persons erratic_motion self =
     self\<lparr>speed_history := deque_append (stab_history_size self) (speed_history self) avg_speed,
          stab_person_count_history :=
            deque_append (stab_history_size self) (stab_person_count_history self) num_persons,
          motion_score_history :=
            deque_append (stab_history_size self) (motion_score_history self) erratic_motion\<rparr>"

definition stab_neutral :: row where
  "stab_neutral =
     [(''activity_persistence_score'', Num (1 / 2)),
      (''motion_consistency'', Num (1 / 2)),
      (''motion_stability_score'', Num (1 / 2))]"

definition stability_extract ::
  "row \<Rightarrow> ActivityStabilityFeatures \<Rightarrow> pyerror + (row \<times> ActivityStabilityFeatures)" where
  "stability_extract current_features self =
     py_bind (py_float (row_get current_features ''avg_person_speed'' (Num 0))) (\<lambda>avg_speed.
     py_bind (py_float (row_get current_features ''avg_num_persons'' (Num 0))) (\<lambda>num_persons.
     py_bind (py_float (row_get current_features ''erratic_motion_score'' (Num 0)))
       (\<lambda>erratic_motion.
     let self' = stab_update_history avg_speed num_persons erratic_motion self
     in if length (speed_history self') < 2 then Inr (stab_neutral, self')
        else
          (let person_std = np_std (stab_person_count_history self');
               activity_persistence_score = 1 / (1 + person_std);
               speed_std = np_std (speed_history self');
               speed_mean = np_mean (speed_history self') + eps;
               motion_consistency = np_clip (1 - speed_std / speed_mean) 0 1;
               erratic_variation = np_std (motion_score_history self');
               motion_stability_score = 1 / (1 + erratic_variation)
           in Inr ([(''activity_persistence_score'', Num activity_persistence_score),
                    (''motion_consistency'', Num motion_consistency),
                    (''motion_stability_score'', Num motion_stability_score)],
                   self')))))"


section \<open>Activity transition extractor (activity_transition_features.py)\<close>

record ActivityTransitionFeatures =
  trans_history_size :: nat
  person_change_threshold :: real
  trans_person_count_history :: "cell list"
  zone_count_history :: "cell list"
  high_risk_history :: "cell list"

definition ActivityTransitionFeatures_init :: "nat \<Rightarrow> real \<Rightarrow> ActivityTransitionFeatures" where
  "ActivityTransitionFeatures_init history_size thr =
     \<lparr>trans_history_size = history_size, person_change_threshold = thr,
      trans_person_count_history = [], zone_count_history = [], high_risk_history = []\<rparr>"

definition trans_update_history ::
  "cell \<Rightarrow> cell \<Rightarrow> cell \<Rightarrow> ActivityTransitionFeatures \<Rightarrow> ActivityTransitionFeatures" where
  "trans_update_history num_persons num_zones num_high_risk self =
     self\<lparr>trans_person_count_history :=
            deque_append (trans_history_size self) (trans_person_count_history self) num_persons,
          zone_count_history :=
            deque_append (trans_history_size self) (zone_count_history self) num_zones,
          high_risk_history :=
            deque_append (trans_history_size self) (high_risk_history self) num_high_risk\<rparr>"

definition trans_empty_features :: row where
  "trans_empty_features =
     [(''activity_change_rate'', Num 0),
      (''zone_transition_count'', Num 0),
      (''risk_transition_score'', Num 0)]"

definition transition_extract ::
  "row \<Rightarrow> ActivityTransitionFeatures \<Rightarrow> pyerror + (row \<times> ActivityTransitionFeatures)" where
  "transition_extract current_features self =
     (let num_persons = row_get current_features ''avg_num_persons'' (Num 0);
          num_zones = row_get current_features ''num_persons_in_zone'' (Num 0);
          num_high_risk = row_get current_features ''num_people_in_high_risk_zone'' (Num 0)
      in if length (trans_person_count_history self) < 2
         then Inr (trans_empty_features,
                   trans_update_history num_persons num_zones num_high_risk self)
         else
           py_bind (np_numbers (trans_person_count_history self)) (\<lambda>person_history.
           py_bind (py_float num_persons) (\<lambda>cur_persons.
           py_bind (np_numbers (zone_count_history self)) (\<lambda>zone_history.
           py_bind (np_numbers (high_risk_history self)) (\<lambda>risk_history.
           let prev_persons = np_mean person_history;
               delta_persons = \<bar>cur_persons - prev_persons\<bar>;
               activity_change_rate =
                 np_clip (if prev_persons > 0 then delta_persons / (prev_persons + eps) else 0)
                   0 1;
               zone_variation = np_std zone_history;
               zone_transition_count = py_round zone_variation;
               risk_variation = np_std risk_history;
               risk_transition_score =
                 np_clip (risk_variation / (np_mean risk_history + eps)) 0 1
           in Inr ([(''activity_change_rate'', Num activity_change_rate),
                    (''zone_transition_count'', Num (of_int zone_transition_count)),
                    (''risk_transition_score'', Num risk_transition_score)],
                   trans_update_history num_persons num_zones num_high_risk self))))))"

fun transition_run ::
  "row list \<Rightarrow> ActivityTransitionFeatures
     \<Rightarrow> pyerror + (row list \<times> ActivityTransitionFeatures)" where
  "transition_run [] self = Inr ([], self)"
| "transition_run (r # rs) self =
     py_bind (transition_extract r self) (\<lambda>(out, self').
     py_bind (transition_run rs self') (\<lambda>(outs, self'').
     Inr (out # outs, self'')))"


text \<open>
  What the transition extractor reads from a row, when all three values are numbers:
  person count, zone occupants, high-risk-zone occupants (a missing key reads as 0).
\<close>

definition trans_inputs :: "row \<Rightarrow> (real \<times> real \<times> real) option" where
  "trans_inputs r =
     (case (cell_num (row_get r ''avg_num_persons'' (Num 0)),
            cell_num (row_get r ''num_persons_in_zone'' (Num 0)),
            cell_num (row_get r ''num_people_in_high_risk_zone'' (Num 0))) of
        (Some a, Some b, Some c) \<Rightarrow> Some (a, b, c)
      | _ \<Rightarrow> None)"


section \<open>pandas helpers\<close>

text \<open>
  \<^verbatim>\<open>Series.nunique()\<close> and \<^verbatim>\<open>Series.unique()\<close> (values in order of first appearance).
\<close>

definition unique :: "'a list \<Rightarrow> 'a list" where
  "unique xs = rev (remdups (rev xs))"

definition nunique :: "'a list \<Rightarrow> nat" where
  "nunique xs = length (remdups xs)"

definition is_machine :: "detection \<Rightarrow> bool" where
  "is_machine d = (object_class d = ''vehicle'' \<or> object_class d = ''machinery'')"

section \<open>Human presence extractor (human_features.py)\<close>

record HumanPresenceFeatures =
  image_width :: int
  image_height :: int
  image_area :: int
  stationary_threshold :: real

definition HumanPresenceFeatures_init :: "int \<Rightarrow> int \<Rightarrow> real \<Rightarrow> HumanPresenceFeatures" where
  "HumanPresenceFeatures_init w h thr =
     \<lparr>image_width = w, image_height = h, image_area = w * h, stationary_threshold = thr\<rparr>"

definition human_zero_row :: row where
  "human_zero_row =
     [(''avg_num_persons'', Num 0),
      (''max_num_persons'', Num 0),
      (''unique_person_tracks'', Num 0),
      (''person_density'', Num 0),
      (''person_presence_ratio'', Num 0),
      (''num_person_entries'', Num 0),
      (''stationary_person_ratio'', Num 0),
      (''crowding_score'', Num 0),
      (''avg_person_height'', Num 0)]"

text \<open>The rows of one track, and whether a track with at least two rows moved less than the threshold.\<close>

definition track_rows :: "window \<Rightarrow> int \<Rightarrow> window" where
  "track_rows df tid = filter (\<lambda>d. track_id d = tid) df"

definition is_stationary :: "real \<Rightarrow> window \<Rightarrow> bool" where
  "is_stationary thr track_df =
     (let dx = Max (set (map bbox_x track_df)) - Min (set (map bbox_x track_df));
          dy = Max (set (map bbox_y track_df)) - Min (set (map bbox_y track_df));
          displacement = sqrt (dx ^ 2 + dy ^ 2)
      in displacement < thr)"

definition human_extract :: "HumanPresenceFeatures \<Rightarrow> window \<Rightarrow> row" where
  "human_extract self window_df =
     (let df = filter is_person window_df
      in if df = [] then human_zero_row
         else
           (let persons_per_frame =
                  map (\<lambda>t. real (nunique (map track_id (filter (\<lambda>d. timestamp d = t) df))))
                      (unique (map timestamp df));
                avg_num_persons = np_mean persons_per_frame;
                max_num_persons = Max (set persons_per_frame);
                unique_person_tracks = nunique (map track_id df);
                person_density =
                  (if image_area self > 0 then avg_num_persons / real_of_int (image_area self)
                   else 0);
                total_frames = nunique (map timestamp window_df);
                frames_with_person = length persons_per_frame;
                person_presence_ratio =
                  (if total_frames > 0 then real frames_with_person / real total_frames else 0);
                tracks = unique (map track_id df);
                num_person_entries =
                  length (filter (\<lambda>tid. length (track_rows df tid) = 1) tracks);
                avg_person_height = np_mean (map bbox_h df);
                total_tracks = nunique (map track_id df);
                stationary_tracks =
                  length (filter (\<lambda>tid. \<not> length (track_rows df tid) < 2
                                         \<and> is_stationary (stationary_threshold self)
                                              (track_rows df tid)) tracks);
                stationary_person_ratio =
                  (if total_tracks > 0 then real stationary_tracks / real total_tracks else 0);
                crowding_score = min (avg_num_persons / 5) 1
            in [(''avg_num_persons'', Num avg_num_persons),
                (''max_num_persons'', Num max_num_persons),
                (''unique_person_tracks'', Num (real unique_person_tracks)),
                (''person_density'', Num person_density),
                (''person_presence_ratio'', Num person_presence_ratio),
                (''num_person_entries'', Num (real num_person_entries)),
                (''avg_person_height'', Num avg_person_height),
                (''stationary_person_ratio'', Num stationary_person_ratio),
                (''crowding_score'', Num crowding_score)]))"

section \<open>Machine and vehicle extractor (machine_features.py)\<close>

record MachineVehicleFeatures =
  mach_window_duration :: real

definition machine_empty_features :: row where
  "machine_empty_features =
     [(''num_machines_avg'', Num 0),
      (''machine_presence_ratio'', Num 0),
      (''unique_machine_tracks'', Num 0),
      (''machine_type_ratio'', Num 0),
      (''co_presence_person_machine'', Num 0),
      (''machine_dominance_ratio'', Num 0),
      (''machine_only_duration'', Num 0)]"

text \<open>Per timestamp: the number of distinct person tracks and of distinct machine tracks.\<close>

definition frame_counts :: "window \<Rightarrow> real \<Rightarrow> nat \<times> nat" where
  "frame_counts df ts =
     (let persons = filter is_person df;
          vehicles = filter (\<lambda>d. object_class d = ''vehicle'') df;
          machines = filter (\<lambda>d. object_class d = ''machinery'') df;
          persons_f = nunique (map track_id (filter (\<lambda>d. timestamp d = ts) persons));
          machines_f = nunique (map track_id (filter (\<lambda>d. timestamp d = ts) vehicles))
                       + nunique (map track_id (filter (\<lambda>d. timestamp d = ts) machines))
      in (persons_f, machines_f))"

definition machine_extract :: "MachineVehicleFeatures \<Rightarrow> window \<Rightarrow> row" where
  "machine_extract self df =
     (if df = [] then machine_empty_features
      else
        (let vehicles = filter (\<lambda>d. object_class d = ''vehicle'') df;
             machines = filter (\<lambda>d. object_class d = ''machinery'') df;
             frames = unique (map timestamp df);
             num_frames = length frames
         in if num_frames = 0 then machine_empty_features
            else
              (let counts = map (frame_counts df) frames;
                   machines_per_frame = map snd counts;
                   machine_presence_frames = length (filter (\<lambda>(p, m). m > 0) counts);
                   co_presence_frames = length (filter (\<lambda>(p, m). m > 0 \<and> p > 0) counts);
                   dominance_frames = length (filter (\<lambda>(p, m). m > p) counts);
                   machine_only_frames = length (filter (\<lambda>(p, m). m > 0 \<and> p = 0) counts);
                   num_machines_avg = real (sum_list machines_per_frame) / real num_frames;
                   machine_presence_ratio = real machine_presence_frames / real num_frames;
                   co_presence_ratio = real co_presence_frames / real num_frames;
                   dominance_ratio = real dominance_frames / real num_frames;
                   machine_only_duration =
                     (real machine_only_frames / real num_frames) * mach_window_duration self;
                   unique_machine_tracks =
                     nunique (map track_id vehicles @ map track_id machines);
                   num_vehicles = nunique (map track_id vehicles);
                   num_machinery = nunique (map track_id machines);
                   machine_type_ratio =
                     (if num_vehicles + num_machinery > 0
                      then real num_vehicles / real (num_vehicles + num_machinery) else 0)
               in [(''num_machines_avg'', Num num_machines_avg),
                   (''machine_presence_ratio'', Num machine_presence_ratio),
                   (''unique_machine_tracks'', Num (real unique_machine_tracks)),
                   (''machine_type_ratio'', Num machine_type_ratio),
                   (''co_presence_person_machine'', Num co_presence_ratio),
                   (''machine_dominance_ratio'', Num dominance_ratio),
                   (''machine_only_duration'', Num machine_only_duration)])))"


section \<open>Geometry (geometry.py)\<close>

definition bbox_center :: "detection \<Rightarrow> real \<times> real" where
  "bbox_center bbox = (bbox_x bbox + bbox_w bbox / 2, bbox_y bbox + bbox_h bbox / 2)"

definition euclidean_distance :: "real \<times> real \<Rightarrow> real \<times> real \<Rightarrow> real" where
  "euclidean_distance p1 p2 = sqrt ((fst p1 - fst p2) ^ 2 + (snd p1 - snd p2) ^ 2)"

text \<open>\<^verbatim>\<open>math.atan2(y, x)\<close> (signed zeros apart) and \<^verbatim>\<open>math.degrees\<close>.\<close>

definition py_atan2 :: "real \<Rightarrow> real \<Rightarrow> real" where
  "py_atan2 y x =
     (if x > 0 then arctan (y / x)
      else if x < 0 \<and> y \<ge> 0 then arctan (y / x) + pi
      else if x < 0 then arctan (y / x) - pi
      else if y > 0 then pi / 2
      else if y < 0 then - pi / 2
      else 0)"

definition degrees :: "real \<Rightarrow> real" where
  "degrees a = a * 180 / pi"

text \<open>\<^verbatim>\<open>np.var\<close>: the population variance.\<close>

definition np_var :: "real list \<Rightarrow> real" where
  "np_var xs = np_mean (map (\<lambda>x. \<bar>x - np_mean xs\<bar> ^ 2) xs)"

section \<open>Temporal dynamics extractor (temporal_dynamics_features.py)\<close>

record TemporalDynamicsFeatures =
  td_window_duration :: real
  sudden_stop_threshold :: real
  high_speed_threshold :: real
  near_machine_distance :: real

definition temporal_empty_features :: row where
  "temporal_empty_features =
     [(''avg_person_speed'', Num 0),
      (''std_person_speed'', Num 0),
      (''direction_variance'', Num 0),
      (''track_lifetime_mean'', Num 0),
      (''sudden_stop_events'', Num 0),
      (''erratic_motion_score'', Num 0),
      (''high_speed_near_machine'', Num 0)]"

text \<open>
  The speeds and directions of one track: one pair for each consecutive pair of its
  positions with a positive time difference.
\<close>

fun track_motion :: "(real \<times> (real \<times> real)) list \<Rightarrow> (real \<times> real) list" where
  "track_motion ((t0, c0) # (t1, c1) # rest) =
     (let dt = t1 - t0
      in if dt \<le> 0 then track_motion ((t1, c1) # rest)
         else (euclidean_distance c1 c0 / dt,
               degrees (py_atan2 (snd c1 - snd c0) (fst c1 - fst c0)))
              # track_motion ((t1, c1) # rest))"
| "track_motion _ = []"

text \<open>Sudden stops of one track: speed samples below (1 - threshold) times the one before.\<close>

fun count_sudden_stops :: "real \<Rightarrow> real list \<Rightarrow> nat" where
  "count_sudden_stops thr (s0 # s1 # rest) =
     (if s1 < s0 * (1 - thr) then 1 else 0) + count_sudden_stops thr (s1 # rest)"
| "count_sudden_stops thr _ = 0"

text \<open>
  What one track adds to the window's totals: its speeds, its directions, its lifetime,
  its sudden stops and its fast samples near a machine. The fast samples are paired with
  the track's positions from the second on, by position in the list, as
  \<^verbatim>\<open>zip(track_speeds, coords[1:])\<close> does. pandas sorts the track's rows by timestamp;
  rows with one and the same timestamp keep their order here.
\<close>

definition track_contribution ::
  "TemporalDynamicsFeatures \<Rightarrow> window \<Rightarrow> window
     \<Rightarrow> real list \<times> real list \<times> nat list \<times> nat \<times> nat" where
  "track_contribution self machines track_df0 =
     (let track_df = sort_key timestamp track_df0;
          coords = map bbox_center track_df;
          motion = track_motion (zip (map timestamp track_df) coords);
          track_speeds = map fst motion;
          track_directions = map snd motion
      in if track_speeds = [] then ([], [], [], 0, 0)
         else
           (track_speeds, track_directions, [length track_speeds],
            count_sudden_stops (sudden_stop_threshold self) track_speeds,
            (if machines = [] then 0
             else length (filter (\<lambda>(s, pos).
                      s > high_speed_threshold self
                      \<and> (\<exists>m \<in> set machines.
                            euclidean_distance pos (bbox_center m) < near_machine_distance self))
                    (zip track_speeds (tl coords))))))"

definition temporal_extract :: "TemporalDynamicsFeatures \<Rightarrow> window \<Rightarrow> row" where
  "temporal_extract self df =
     (if df = [] then temporal_empty_features
      else
        (let persons = filter is_person df;
             machines = filter is_machine df;
             parts = map (\<lambda>tid. track_contribution self machines (track_rows persons tid))
                         (sort (remdups (map track_id persons)));
             speeds = concat (map (\<lambda>(s, d, l, st, hs). s) parts);
             directions = concat (map (\<lambda>(s, d, l, st, hs). d) parts);
             lifetimes = concat (map (\<lambda>(s, d, l, st, hs). l) parts);
             sudden_stops = sum_list (map (\<lambda>(s, d, l, st, hs). st) parts);
             high_speed_near_machine = sum_list (map (\<lambda>(s, d, l, st, hs). hs) parts);
             avg_speed = (if speeds \<noteq> [] then np_mean speeds else 0);
             std_speed = (if speeds \<noteq> [] then np_std speeds else 0);
             direction_variance = (if directions \<noteq> [] then np_var directions else 0);
             track_lifetime_mean =
               (if lifetimes \<noteq> [] then np_mean (map real lifetimes) else 0);
             erratic_motion_score = std_speed * direction_variance
         in [(''avg_person_speed'', Num avg_speed),
             (''std_person_speed'', Num std_speed),
             (''direction_variance'', Num direction_variance),
             (''track_lifetime_mean'', Num track_lifetime_mean),
             (''sudden_stop_events'', Num (real sudden_stops)),
             (''erratic_motion_score'', Num erratic_motion_score),
             (''high_speed_near_machine'', Num (real high_speed_near_machine))]))"

section \<open>Proximity extractor (proximity_features.py)\<close>

record ProximityFeatures =
  prox_window_duration :: real
  danger_distance_pp :: real
  danger_distance_pm :: real

text \<open>\<^verbatim>\<open>np.hypot\<close> and \<^verbatim>\<open>itertools.combinations(xs, 2)\<close>.\<close>

definition np_hypot :: "real \<Rightarrow> real \<Rightarrow> real" where
  "np_hypot a b = sqrt (a ^ 2 + b ^ 2)"

fun combinations2 :: "'a list \<Rightarrow> ('a \<times> 'a) list" where
  "combinations2 [] = []"
| "combinations2 (x # xs) = map (Pair x) xs @ combinations2 xs"

definition pairwise_distances :: "window \<Rightarrow> real list" where
  "pairwise_distances persons =
     (let coords = zip (map bbox_x persons) (map bbox_y persons)
      in map (\<lambda>((x1, y1), (x2, y2)). np_hypot (x1 - x2) (y1 - y2)) (combinations2 coords))"

definition cross_distances :: "window \<Rightarrow> window \<Rightarrow> real list" where
  "cross_distances persons machines =
     concat (map (\<lambda>p. map (\<lambda>m. np_hypot (bbox_x p - bbox_x m) (bbox_y p - bbox_y m))
                          machines) persons)"

definition overlap :: "detection \<Rightarrow> detection \<Rightarrow> bool" where
  "overlap a b =
     (let ax1 = bbox_x a - bbox_w a / 2; ay1 = bbox_y a - bbox_h a / 2;
          ax2 = bbox_x a + bbox_w a / 2; ay2 = bbox_y a + bbox_h a / 2;
          bx1 = bbox_x b - bbox_w b / 2; by1 = bbox_y b - bbox_h b / 2;
          bx2 = bbox_x b + bbox_w b / 2; by2 = bbox_y b + bbox_h b / 2
      in \<not> (ax2 < bx1 \<or> ax1 > bx2 \<or> ay2 < by1 \<or> ay1 > by2))"

definition bbox_overlaps :: "window \<Rightarrow> window \<Rightarrow> nat" where
  "bbox_overlaps persons machines =
     length (filter (\<lambda>(p, m). overlap p m) (List.product persons machines))"

definition proximity_empty_features :: row where
  "proximity_empty_features =
     [(''avg_person_person_distance'', Num 0),
      (''std_person_person_distance'', Num 0),
      (''avg_person_machine_distance'', Num 0),
      (''min_person_person_distance'', Num 0),
      (''min_person_machine_distance'', Num 0),
      (''dangerous_proximity_frames'', Num 0),
      (''bbox_overlap_person_machine'', Num 0)]"

text \<open>
  The four-argument \<^verbatim>\<open>GeometryUtils.euclidean_distance\<close> that the machine-interaction
  loop calls comes from a module (\<^verbatim>\<open>utils/geometry.py\<close>) that is not among the sources;
  it is the first argument of the extractor here.
\<close>

definition proximity_extract ::
  "(real \<Rightarrow> real \<Rightarrow> real \<Rightarrow> real \<Rightarrow> real) \<Rightarrow> ProximityFeatures \<Rightarrow> window \<Rightarrow> row" where
  "proximity_extract utils_distance self df =
     (if df = [] then proximity_empty_features
      else
        (let persons = filter is_person df;
             machines = filter is_machine df;
             pp_distances = pairwise_distances persons;
             avg_pp = (if pp_distances \<noteq> [] then np_mean pp_distances else 0);
             std_pp = (if pp_distances \<noteq> [] then np_std pp_distances else 0);
             min_pp = (if pp_distances \<noteq> [] then Min (set pp_distances) else 0);
             dangerous_pp = length (filter (\<lambda>d. d < danger_distance_pp self) pp_distances);
             pm_distances = cross_distances persons machines;
             avg_pm = (if pm_distances \<noteq> [] then np_mean pm_distances else 0);
             min_pm = (if pm_distances \<noteq> [] then Min (set pm_distances) else 0);
             dangerous_pm = length (filter (\<lambda>d. d < danger_distance_pm self) pm_distances);
             num_machine_interactions =
               length (filter (\<lambda>(p, m). utils_distance (bbox_x p) (bbox_y p) (bbox_x m) (bbox_y m)
                                          < danger_distance_pm self)
                         (List.product persons machines));
             time_near_machine = real num_machine_interactions * prox_window_duration self;
             overlaps = bbox_overlaps persons machines
         in [(''avg_person_person_distance'', Num avg_pp),
             (''std_person_person_distance'', Num std_pp),
             (''avg_person_machine_distance'', Num avg_pm),
             (''min_person_person_distance'', Num min_pp),
             (''min_person_machine_distance'', Num min_pm),
             (''dangerous_proximity_frames'', Num (real (dangerous_pp + dangerous_pm))),
             (''bbox_overlap_person_machine'', Num (real overlaps)),
             (''time_near_machine'', Num time_near_machine),
             (''num_machine_interactions'', Num (real num_machine_interactions))]))"


section \<open>Homography (utils/homography.py)\<close>

text \<open>
  The projection is where the zone extractor asks whether a float is NaN, so here a
  float is a real number or NaN, with NaN passed on by every operation and equal to
  nothing. (Overflow to infinity is not modelled.)
\<close>

datatype npfloat = Fl real | FNaN

fun fl_add :: "npfloat \<Rightarrow> npfloat \<Rightarrow> npfloat" where
  "fl_add (Fl a) (Fl b) = Fl (a + b)"
| "fl_add _ _ = FNaN"

fun fl_mul :: "npfloat \<Rightarrow> npfloat \<Rightarrow> npfloat" where
  "fl_mul (Fl a) (Fl b) = Fl (a * b)"
| "fl_mul _ _ = FNaN"

text \<open>Division, used only behind the test that the divisor is not zero.\<close>

fun fl_div :: "npfloat \<Rightarrow> npfloat \<Rightarrow> npfloat" where
  "fl_div (Fl a) (Fl b) = Fl (a / b)"
| "fl_div _ _ = FNaN"

fun isnan :: "npfloat \<Rightarrow> bool" where
  "isnan FNaN = True"
| "isnan (Fl a) = False"

type_synonym matrix3 =
  "(npfloat \<times> npfloat \<times> npfloat) \<times> (npfloat \<times> npfloat \<times> npfloat)
     \<times> (npfloat \<times> npfloat \<times> npfloat)"

text \<open>One row of \<^verbatim>\<open>H @ [x, y, 1.0]\<close>.\<close>

definition matvec_row :: "npfloat \<times> npfloat \<times> npfloat \<Rightarrow> real \<Rightarrow> real \<Rightarrow> npfloat" where
  "matvec_row r x y =
     (case r of (a, b, c) \<Rightarrow>
        fl_add (fl_add (fl_mul a (Fl x)) (fl_mul b (Fl y))) (fl_mul c (Fl 1)))"

definition apply_homography :: "real \<Rightarrow> real \<Rightarrow> matrix3 \<Rightarrow> npfloat \<times> npfloat" where
  "apply_homography x y H =
     (case H of (r0, r1, r2) \<Rightarrow>
        (let p0 = matvec_row r0 x y;
             p1 = matvec_row r1 x y;
             p2 = matvec_row r2 x y
         in if p2 = Fl 0 then (Fl 0, Fl 0)
            else (fl_div p0 p2, fl_div p1 p2)))"

section \<open>Point in polygon (zones.py)\<close>

text \<open>
  \<^verbatim>\<open>ZoneUtils.point_in_polygon\<close>, by ray casting. The zone extractor itself calls
  \<^verbatim>\<open>GeometryUtils.point_in_polygon\<close> of \<^verbatim>\<open>utils/geometry.py\<close>, which is not among the
  sources: there the test is an argument of the extractor, and this function is what
  the concrete runs below pass for it.
\<close>

definition crosses :: "real \<Rightarrow> real \<Rightarrow> (real \<times> real) \<Rightarrow> (real \<times> real) \<Rightarrow> bool" where
  "crosses x y v1 v2 =
     (case (v1, v2) of ((x1, y1), (x2, y2)) \<Rightarrow>
        (y1 > y) \<noteq> (y2 > y)
        \<and> x < (x2 - x1) * (y - y1) / (y2 - y1 + 1 / 1000000000) + x1)"

definition point_in_polygon :: "real \<Rightarrow> real \<Rightarrow> (real \<times> real) list \<Rightarrow> bool" where
  "point_in_polygon x y polygon =
     (let n = length polygon
      in foldl (\<lambda>inside i.
                  if crosses x y (polygon ! i) (polygon ! ((i + 1) mod n))
                  then \<not> inside else inside)
               False [0..<n])"

section \<open>Zone extractor (zone_features.py)\<close>

record zone =
  zone_id :: int
  zone_type :: string
  risk_level :: string
  polygon :: "(real \<times> real) list"

text \<open>
  The extractor: its zones, its homography (None when not supplied), the window
  duration, and the two memories from (track, zone) to a timestamp that live as long as
  the extractor does.
\<close>

record ZoneFeatures =
  zones :: "zone list"
  homography :: "matrix3 option"
  zone_window_duration :: real
  first_entry_time :: "((int \<times> int) \<times> real) list"
  last_exit_time :: "((int \<times> int) \<times> real) list"

definition ZoneFeatures_init :: "zone list \<Rightarrow> matrix3 option \<Rightarrow> real \<Rightarrow> ZoneFeatures" where
  "ZoneFeatures_init zs H wd =
     \<lparr>zones = zs, homography = H, zone_window_duration = wd,
      first_entry_time = [], last_exit_time = []\<rparr>"

text \<open>The accumulators of one call; a Python set is a list without repetitions.\<close>

record zone_acc =
  persons_in_zone :: "(int \<times> int list) list"
  zone_time :: "(int \<times> real) list"
  zone_type_count :: "(string \<times> nat) list"
  zone_risk_count :: "(string \<times> nat) list"
  entry_exit_events :: "(int \<times> nat) list"
  person_to_zones :: "(int \<times> int list) list"

definition zone_acc_empty :: zone_acc where
  "zone_acc_empty =
     \<lparr>persons_in_zone = [], zone_time = [], zone_type_count = [], zone_risk_count = [],
      entry_exit_events = [], person_to_zones = []\<rparr>"

text \<open>\<^verbatim>\<open>d[k].add(v)\<close> and \<^verbatim>\<open>d[k] += v\<close> on a defaultdict.\<close>

definition dd_add :: "'k \<Rightarrow> 'v \<Rightarrow> ('k \<times> 'v list) list \<Rightarrow> ('k \<times> 'v list) list" where
  "dd_add k v d =
     AList.update k (List.insert v (case map_of d k of None \<Rightarrow> [] | Some s \<Rightarrow> s)) d"

definition dd_plus :: "'k \<Rightarrow> 'n::monoid_add \<Rightarrow> ('k \<times> 'n) list \<Rightarrow> ('k \<times> 'n) list" where
  "dd_plus k v d = AList.update k ((case map_of d k of None \<Rightarrow> 0 | Some s \<Rightarrow> s) + v) d"

text \<open>
  The body of the loop over the zones, for the person \<open>pid\<close> projected to (Xp, Yp) in
  a window of \<open>n\<close> person rows whose representative timestamp is \<open>ts\<close>.
\<close>

definition zone_step ::
  "(real \<Rightarrow> real \<Rightarrow> (real \<times> real) list \<Rightarrow> bool) \<Rightarrow> real \<Rightarrow> nat \<Rightarrow> real \<Rightarrow> int \<Rightarrow> real \<Rightarrow> real
     \<Rightarrow> zone_acc \<times> ZoneFeatures \<Rightarrow> zone \<Rightarrow> zone_acc \<times> ZoneFeatures" where
  "zone_step inside_test wd n ts pid Xp Yp st z =
     (case st of (acc, self) \<Rightarrow>
        (let zid = zone_id z
         in if \<not> inside_test Xp Yp (polygon z) then (acc, self)
            else
              (let acc1 = acc\<lparr>persons_in_zone := dd_add zid pid (persons_in_zone acc),
                              person_to_zones := dd_add pid zid (person_to_zones acc),
                              zone_time := dd_plus zid (wd / real n) (zone_time acc),
                              zone_type_count := dd_plus (zone_type z) 1 (zone_type_count acc),
                              zone_risk_count := dd_plus (risk_level z) 1 (zone_risk_count acc)\<rparr>;
                   new = (map_of (first_entry_time self) (pid, zid) = None);
                   acc2 = (if new
                           then acc1\<lparr>entry_exit_events :=
                                        dd_plus zid 1 (entry_exit_events acc1)\<rparr>
                           else acc1);
                   self1 = (if new
                            then self\<lparr>first_entry_time :=
                                         AList.update (pid, zid) ts (first_entry_time self)\<rparr>
                            else self);
                   self2 = self1\<lparr>last_exit_time :=
                                    AList.update (pid, zid) ts (last_exit_time self1)\<rparr>
               in (acc2, self2))))"

text \<open>
  The body of the loop over the person rows: project the point the code takes from the
  box, skip the person when a coordinate is NaN, otherwise test every zone.
\<close>

definition person_plane_point :: "matrix3 \<Rightarrow> detection \<Rightarrow> npfloat \<times> npfloat" where
  "person_plane_point H p =
     (let x_img = bbox_x p;
          y_img = bbox_y p + bbox_h p / 2
      in apply_homography x_img y_img H)"

definition person_step ::
  "(real \<Rightarrow> real \<Rightarrow> (real \<times> real) list \<Rightarrow> bool) \<Rightarrow> matrix3 \<Rightarrow> nat \<Rightarrow> real
     \<Rightarrow> zone_acc \<times> ZoneFeatures \<Rightarrow> detection \<Rightarrow> zone_acc \<times> ZoneFeatures" where
  "person_step inside_test H n ts st p =
     (case person_plane_point H p of
        (Fl Xp, Fl Yp) \<Rightarrow>
          foldl (zone_step inside_test (zone_window_duration (snd st)) n ts (track_id p) Xp Yp)
                st (zones (snd st))
      | _ \<Rightarrow> st)"

definition zone_empty_features :: row where
  "zone_empty_features =
     [(''num_persons_in_zone'', Num 0),
      (''time_in_zone'', Num 0),
      (''multiple_zone_exposure'', Num 0),
      (''num_people_in_high_risk_zone'', Num 0),
      (''proportion_time_in_high_risk_zone'', Num 0),
      (''zone_entry_exit_events'', Num 0),
      (''first_entry_time'', NoneV),
      (''last_exit_time'', NoneV)]"

definition zone_extract ::
  "(real \<Rightarrow> real \<Rightarrow> (real \<times> real) list \<Rightarrow> bool) \<Rightarrow> window \<Rightarrow> ZoneFeatures
     \<Rightarrow> row \<times> ZoneFeatures" where
  "zone_extract inside_test df self =
     (case homography self of
        None \<Rightarrow> (zone_empty_features, self)
      | Some H \<Rightarrow>
          if df = [] \<or> zones self = [] then (zone_empty_features, self)
          else
            (let persons = filter is_person df
             in if persons = [] then (zone_empty_features, self)
                else
                  (let high_risk_zones =
                         map zone_id (filter (\<lambda>z. risk_level z = ''HIGH'') (zones self));
                       ts = timestamp (hd persons);
                       (acc, self') =
                         foldl (person_step inside_test H (length persons) ts)
                               (zone_acc_empty, self) persons;
                       num_persons_in_zone = length (person_to_zones acc);
                       multiple_zone_exposure =
                         length (filter (\<lambda>(pid, zs). length zs > 1) (person_to_zones acc));
                       total_time = sum_list (map snd (zone_time acc));
                       high_risk_time =
                         sum_list (map snd (filter (\<lambda>(zid, t). zid \<in> set high_risk_zones)
                                                    (zone_time acc)));
                       num_people_in_high_risk_zone =
                         sum_list (map (\<lambda>(zid, ps). length ps)
                                       (filter (\<lambda>(zid, ps). zid \<in> set high_risk_zones)
                                               (persons_in_zone acc)));
                       proportion_high_risk =
                         (if total_time > 0 then high_risk_time / total_time else 0);
                       features =
                         [(''num_persons_in_zone'', Num (real num_persons_in_zone)),
                          (''time_in_zone'', Num total_time),
                          (''multiple_zone_exposure'', Num (real multiple_zone_exposure)),
                          (''num_people_in_high_risk_zone'',
                             Num (real num_people_in_high_risk_zone)),
                          (''proportion_time_in_high_risk_zone'', Num proportion_high_risk),
                          (''zone_entry_exit_events'',
                             Num (real (sum_list (map snd (entry_exit_events acc))))),
                          (''first_entry_time'',
                             if first_entry_time self' \<noteq> []
                             then TimeV (Min (set (map snd (first_entry_time self'))))
                             else NoneV),
                          (''last_exit_time'',
                             if last_exit_time self' \<noteq> []
                             then TimeV (Max (set (map snd (last_exit_time self'))))
                             else NoneV)]
                   in (dict_update
                         (dict_update features
                            (map (\<lambda>(k, v). (''zone_type_'' @ k @ ''_count'', Num (real v)))
                                 (zone_type_count acc)))
                         (map (\<lambda>(k, v). (''zone_risk_'' @ k @ ''_count'', Num (real v)))
                              (zone_risk_count acc)),
                       self'))))"

text \<open>
  The part of \<^verbatim>\<open>extract\<close> that follows the loop over the persons (the final
  aggregation), as a function of the zones and of what the loop leaves behind: the
  accumulators and the extractor with its updated memories.
\<close>

definition zone_aggregate :: "zone list \<Rightarrow> zone_acc \<times> ZoneFeatures \<Rightarrow> row \<times> ZoneFeatures" where
  "zone_aggregate zs st =
     (let high_risk_zones = map zone_id (filter (\<lambda>z. risk_level z = ''HIGH'') zs);
          (acc, self') = st;
          num_persons_in_zone = length (person_to_zones acc);
          multiple_zone_exposure =
            length (filter (\<lambda>(pid, zs). length zs > 1) (person_to_zones acc));
          total_time = sum_list (map snd (zone_time acc));
          high_risk_time =
            sum_list (map snd (filter (\<lambda>(zid, t). zid \<in> set high_risk_zones)
                                       (zone_time acc)));
          num_people_in_high_risk_zone =
            sum_list (map (\<lambda>(zid, ps). length ps)
                          (filter (\<lambda>(zid, ps). zid \<in> set high_risk_zones)
                                  (persons_in_zone acc)));
          proportion_high_risk =
            (if total_time > 0 then high_risk_time / total_time else 0);
          features =
            [(''num_persons_in_zone'', Num (real num_persons_in_zone)),
             (''time_in_zone'', Num total_time),
             (''multiple_zone_exposure'', Num (real multiple_zone_exposure)),
             (''num_people_in_high_risk_zone'', Num (real num_people_in_high_risk_zone)),
             (''proportion_time_in_high_risk_zone'', Num proportion_high_risk),
             (''zone_entry_exit_events'',
                Num (real (sum_list (map snd (entry_exit_events acc))))),
             (''first_entry_time'',
                if first_entry_time self' \<noteq> []
                then TimeV (Min (set (map snd (first_entry_time self'))))
                else NoneV),
             (''last_exit_time'',
                if last_exit_time self' \<noteq> []
                then TimeV (Max (set (map snd (last_exit_time self'))))
                else NoneV)]
      in (dict_update
            (dict_update features
               (map (\<lambda>(k, v). (''zone_type_'' @ k @ ''_count'', Num (real v)))
                    (zone_type_count acc)))
            (map (\<lambda>(k, v). (''zone_risk_'' @ k @ ''_count'', Num (real v)))
                 (zone_risk_count acc)),
          self'))"

text \<open>Whether the point projected for a person has two numeric coordinates.\<close>

definition projects :: "matrix3 \<Rightarrow> detection \<Rightarrow> bool" where
  "projects H p =
     (\<not> isnan (fst (person_plane_point H p)) \<and> \<not> isnan (snd (person_plane_point H p)))"

text \<open>
  Concrete inputs for the zone extractor: a high-risk square around the plane's origin, a
  matrix of zeros (every homogeneous denominator is zero), a matrix with a NaN entry
  whose denominator \<open>y - 240\<close> is zero on the image line \<open>y = 240\<close>, a person projected
  from that line (box 100, 200, 50, 80) and a person projected from the line \<open>y = 60\<close>.
\<close>

definition origin_square :: zone where
  "origin_square =
     \<lparr>zone_id = 1, zone_type = ''traffic'', risk_level = ''HIGH'',
      polygon = [(-1, -1), (1, -1), (1, 1), (-1, 1)]\<rparr>"

definition zero_matrix :: matrix3 where
  "zero_matrix = ((Fl 0, Fl 0, Fl 0), (Fl 0, Fl 0, Fl 0), (Fl 0, Fl 0, Fl 0))"

definition nan_matrix :: matrix3 where
  "nan_matrix = ((FNaN, Fl 0, Fl 0), (Fl 0, Fl 1, Fl 0), (Fl 0, Fl 1, Fl (- 240)))"

definition demo_person :: detection where
  "demo_person = det 0 ''person'' 100 200 50 80 7"

definition far_person :: detection where
  "far_person = det 0 ''person'' 10 20 50 80 8"

section \<open>The classifier's columns (ml_feature_config.py)\<close>

definition ML_FEATURE_COLUMNS :: "string list" where
  "ML_FEATURE_COLUMNS =
     [''avg_num_persons'',
      ''max_num_persons'',
      ''unique_person_tracks'',
      ''person_density'',
      ''person_presence_ratio'',
      ''avg_epi_compliance'',
      ''helmet_compliance_ratio'',
      ''vest_compliance_ratio'',
      ''num_no_helmet_events'',
      ''num_no_vest_events'',
      ''num_machines_avg'',
      ''machine_presence_ratio'',
      ''unique_machine_tracks'',
      ''co_presence_person_machine'',
      ''dangerous_proximity_frames'',
      ''min_person_machine_distance'',
      ''avg_person_speed'',
      ''std_person_speed'',
      ''sudden_stop_events'',
      ''erratic_motion_score'',
      ''direction_variance'',
      ''num_persons_in_zone'',
      ''num_people_in_high_risk_zone'',
      ''proportion_time_in_high_risk_zone'',
      ''multiple_zone_exposure'',
      ''avg_person_height'',
      ''time_near_machine'',
      ''num_machine_interactions'',
      ''motion_consistency'',
      ''activity_persistence_score'']"

section \<open>Tables of feature rows\<close>

text \<open>
  A pandas table: its column names and its rows of cells, each row as long as the list
  of columns. \<^verbatim>\<open>pd.DataFrame(rows)\<close> on a list of dicts takes the keys in order of
  first appearance as columns and shows a key a row lacks as a missing cell.
\<close>

type_synonym dataframe = "string list \<times> cell list list"

definition row_cell :: "row \<Rightarrow> string \<Rightarrow> cell" where
  "row_cell r c = (case map_of r c of None \<Rightarrow> NoneV | Some v \<Rightarrow> v)"

definition DataFrame :: "row list \<Rightarrow> dataframe" where
  "DataFrame rows =
     (let cols = unique (concat (map (map fst) rows))
      in (cols, map (\<lambda>r. map (row_cell r) cols) rows))"

text \<open>\<^verbatim>\<open>df.empty\<close>: no rows or no columns.\<close>

definition df_empty :: "dataframe \<Rightarrow> bool" where
  "df_empty df = (fst df = [] \<or> snd df = [])"

text \<open>\<^verbatim>\<open>df.reindex(columns=cols)\<close>: the named columns in the given order, missing where the table has none.\<close>

definition reindex :: "string list \<Rightarrow> dataframe \<Rightarrow> dataframe" where
  "reindex cols df =
     (cols, map (\<lambda>cells. map (\<lambda>c. case map_of (zip (fst df) cells) c of
                                       None \<Rightarrow> NoneV | Some v \<Rightarrow> v) cols)
                (snd df))"

definition fillna :: "cell \<Rightarrow> dataframe \<Rightarrow> dataframe" where
  "fillna v df = (fst df, map (map (\<lambda>c. if c = NoneV then v else c)) (snd df))"

section \<open>Calling a method\<close>

text \<open>
  The pipeline receives its extractors as objects and calls their \<^verbatim>\<open>extract\<close>. A method
  is its parameter names (after \<^verbatim>\<open>self\<close>; none of the extractors' has a default) and
  its body, over a store that holds the state of every extractor object. A call binds
  the positional arguments to the first parameters and the keyword arguments by name;
  too many arguments, an unknown keyword or an unbound parameter raise TypeError.
\<close>

datatype pyarg = AWindow window | ARow row | ARows "row list"

record 'st py_method =
  param_names :: "string list"
  method_body :: "(string \<Rightarrow> pyarg option) \<Rightarrow> 'st \<Rightarrow> pyerror + (row \<times> 'st)"

definition py_call ::
  "'st py_method \<Rightarrow> pyarg list \<Rightarrow> (string \<times> pyarg) list \<Rightarrow> 'st \<Rightarrow> pyerror + (row \<times> 'st)" where
  "py_call m args kwargs st =
     (let ps = param_names m
      in if length args > length ps then Inl TypeError
         else
           (let rest = drop (length args) ps
            in if \<exists>k \<in> set (map fst kwargs). k \<notin> set rest then Inl TypeError
               else if \<exists>p \<in> set rest. p \<notin> set (map fst kwargs) then Inl TypeError
               else method_body m (map_of (zip ps args @ kwargs)) st))"

section \<open>Orchestrating pipeline (pipeline.py)\<close>

record 'st extractors =
  human_extractor :: "'st py_method"
  epi_extractor :: "'st py_method"
  machine_extractor :: "'st py_method"
  proximity_extractor :: "'st py_method"
  temporal_extractor :: "'st py_method"
  zone_extractor :: "'st py_method"
  stability_extractor :: "'st py_method option"
  transition_extractor :: "'st py_method option"

definition window_metadata :: "nat \<Rightarrow> window \<Rightarrow> row" where
  "window_metadata i window_df =
     [(''window_index'', Num (real i)),
      (''window_start'', TimeV (Min (set (map timestamp window_df)))),
      (''window_end'', TimeV (Max (set (map timestamp window_df)))),
      (''camera_id'', Num (real_of_int (camera_id (hd window_df)))),
      (''num_detections'', Num (real (length window_df)))]"

text \<open>\<^verbatim>\<open>row.update(extractor.extract(window_df))\<close>.\<close>

definition update_from ::
  "window \<Rightarrow> pyerror + (row \<times> 'st) \<Rightarrow> 'st py_method \<Rightarrow> pyerror + (row \<times> 'st)" where
  "update_from window_df acc m =
     py_bind acc (\<lambda>(row, st).
     py_bind (py_call m [AWindow window_df] [] st) (\<lambda>(features, st').
     Inr (dict_update row features, st')))"

definition stability_update ::
  "'st extractors \<Rightarrow> row \<times> 'st \<Rightarrow> pyerror + (row \<times> 'st)" where
  "stability_update exs acc =
     (case acc of (row, st) \<Rightarrow>
        (case stability_extractor exs of
           None \<Rightarrow> Inr (row, st)
         | Some m \<Rightarrow>
             py_bind (py_call m [ARow row] [] st) (\<lambda>(stability_features, st').
             Inr (dict_update row stability_features, st'))))"

definition transition_update ::
  "'st extractors \<Rightarrow> row list \<Rightarrow> row \<times> 'st \<Rightarrow> pyerror + (row \<times> 'st)" where
  "transition_update exs previous_rows acc =
     (case acc of (row, st) \<Rightarrow>
        (case transition_extractor exs of
           None \<Rightarrow> Inr (row, st)
         | Some m \<Rightarrow>
             py_bind (py_call m [] [(''current_row'', ARow row),
                                    (''history'', ARows previous_rows)] st)
               (\<lambda>(transition_features, st').
             Inr (dict_update row transition_features, st'))))"

text \<open>The body of the loop for a window that is not empty: the row it builds.\<close>

definition build_row ::
  "'st extractors \<Rightarrow> nat \<Rightarrow> window \<Rightarrow> row list \<Rightarrow> 'st \<Rightarrow> pyerror + (row \<times> 'st)" where
  "build_row exs i window_df previous_rows st =
     py_bind (foldl (update_from window_df) (Inr (window_metadata i window_df, st))
                [human_extractor exs, epi_extractor exs, machine_extractor exs,
                 proximity_extractor exs, temporal_extractor exs, zone_extractor exs])
       (\<lambda>acc.
     py_bind (stability_update exs acc) (\<lambda>acc'.
     transition_update exs previous_rows acc'))"

text \<open>
  The loop over the windows drawn from the generator. \<^verbatim>\<open>all_rows\<close> and
  \<^verbatim>\<open>previous_rows\<close> receive the same rows at the same time: they are one list here.
\<close>

fun pipeline_loop ::
  "'st extractors \<Rightarrow> int option \<Rightarrow> nat \<Rightarrow> window list \<Rightarrow> row list \<Rightarrow> 'st
     \<Rightarrow> pyerror + (row list \<times> 'st)" where
  "pipeline_loop exs max_windows i [] rows st = Inr (rows, st)"
| "pipeline_loop exs max_windows i (window_df # ws) rows st =
     (if (case max_windows of None \<Rightarrow> False | Some m \<Rightarrow> int i \<ge> m) then Inr (rows, st)
      else if window_df = [] then pipeline_loop exs max_windows (i + 1) ws rows st
      else py_bind (build_row exs i window_df rows st) (\<lambda>(row, st').
           pipeline_loop exs max_windows (i + 1) ws (rows @ [row]) st'))"

definition pipeline_tables :: "row list \<Rightarrow> dataframe \<times> dataframe" where
  "pipeline_tables all_rows =
     (let df_all_features = DataFrame all_rows
      in if df_empty df_all_features then (df_all_features, df_all_features)
         else (df_all_features, fillna (Num 0) (reindex ML_FEATURE_COLUMNS df_all_features)))"

text \<open>
  The whole run. The generator is drawn at most n times; when it has yielded n windows
  and the loop has not stopped at \<^verbatim>\<open>max_windows\<close>, the run is not over within n
  draws and the result is None. Otherwise the result is the exception raised, or the
  two tables with the extractors' final store.
\<close>

definition extract_features_pipeline ::
  "nat \<Rightarrow> SlidingWindow \<Rightarrow> 'st extractors \<Rightarrow> int list \<Rightarrow> real \<Rightarrow> real \<Rightarrow> int option \<Rightarrow> 'st
     \<Rightarrow> (pyerror + ((dataframe \<times> dataframe) \<times> 'st)) option" where
  "extract_features_pipeline n sliding_window exs camera_ids start_time end_time max_windows st =
     (let ws = generate n sliding_window camera_ids start_time end_time
      in if length ws = n \<and> (case max_windows of None \<Rightarrow> True | Some m \<Rightarrow> int n \<le> m)
         then None
         else Some (py_bind (pipeline_loop exs max_windows 0 ws [] st) (\<lambda>(all_rows, st').
                    Inr (pipeline_tables all_rows, st'))))"

section \<open>The repository's extractors as the pipeline's arguments\<close>

record repo_state =
  human_obj :: HumanPresenceFeatures
  epi_obj :: EPIFeatures
  machine_obj :: MachineVehicleFeatures
  proximity_obj :: ProximityFeatures
  temporal_obj :: TemporalDynamicsFeatures
  zone_obj :: ZoneFeatures
  stability_obj :: ActivityStabilityFeatures
  transition_obj :: ActivityTransitionFeatures

text \<open>A method whose one parameter receives a window, and one whose parameter receives a row.\<close>

definition window_method ::
  "string \<Rightarrow> (window \<Rightarrow> 'st \<Rightarrow> pyerror + (row \<times> 'st)) \<Rightarrow> 'st py_method" where
  "window_method p f =
     \<lparr>param_names = [p],
      method_body = (\<lambda>args st. case args p of Some (AWindow w) \<Rightarrow> f w st
                                | _ \<Rightarrow> Inl TypeError)\<rparr>"

definition row_method ::
  "string \<Rightarrow> (row \<Rightarrow> 'st \<Rightarrow> pyerror + (row \<times> 'st)) \<Rightarrow> 'st py_method" where
  "row_method p f =
     \<lparr>param_names = [p],
      method_body = (\<lambda>args st. case args p of Some (ARow r) \<Rightarrow> f r st
                                | _ \<Rightarrow> Inl TypeError)\<rparr>"

definition HumanPresenceFeatures_extract :: "repo_state py_method" where
  "HumanPresenceFeatures_extract =
     window_method ''window_df'' (\<lambda>w st. Inr (human_extract (human_obj st) w, st))"

definition EPIFeatures_extract :: "repo_state py_method" where
  "EPIFeatures_extract =
     window_method ''df'' (\<lambda>w st. case epi_extract w (epi_obj st) of
                                     (r, e) \<Rightarrow> Inr (r, st\<lparr>epi_obj := e\<rparr>))"

definition MachineVehicleFeatures_extract :: "repo_state py_method" where
  "MachineVehicleFeatures_extract =
     window_method ''df'' (\<lambda>w st. Inr (machine_extract (machine_obj st) w, st))"

definition ProximityFeatures_extract ::
  "(real \<Rightarrow> real \<Rightarrow> real \<Rightarrow> real \<Rightarrow> real) \<Rightarrow> repo_state py_method" where
  "ProximityFeatures_extract utils_distance =
     window_method ''df'' (\<lambda>w st. Inr (proximity_extract utils_distance (proximity_obj st) w, st))"

definition TemporalDynamicsFeatures_extract :: "repo_state py_method" where
  "TemporalDynamicsFeatures_extract =
     window_method ''df'' (\<lambda>w st. Inr (temporal_extract (temporal_obj st) w, st))"

definition ZoneFeatures_extract ::
  "(real \<Rightarrow> real \<Rightarrow> (real \<times> real) list \<Rightarrow> bool) \<Rightarrow> repo_state py_method" where
  "ZoneFeatures_extract inside_test =
     window_method ''df'' (\<lambda>w st. case zone_extract inside_test w (zone_obj st) of
                                     (r, z) \<Rightarrow> Inr (r, st\<lparr>zone_obj := z\<rparr>))"

definition ActivityStabilityFeatures_extract :: "repo_state py_method" where
  "ActivityStabilityFeatures_extract =
     row_method ''current_features''
       (\<lambda>r st. py_bind (stability_extract r (stability_obj st))
                  (\<lambda>(out, s). Inr (out, st\<lparr>stability_obj := s\<rparr>)))"

definition ActivityTransitionFeatures_extract :: "repo_state py_method" where
  "ActivityTransitionFeatures_extract =
     row_method ''current_features''
       (\<lambda>r st. py_bind (transition_extract r (transition_obj st))
                  (\<lambda>(out, s). Inr (out, st\<lparr>transition_obj := s\<rparr>)))"

text \<open>
  The pipeline's extractor arguments built from the repository's classes, with or
  without the two inter-window extractors.
\<close>

definition repo_extractors ::
  "(real \<Rightarrow> real \<Rightarrow> real \<Rightarrow> real \<Rightarrow> real) \<Rightarrow> (real \<Rightarrow> real \<Rightarrow> (real \<times> real) list \<Rightarrow> bool)
     \<Rightarrow> bool \<Rightarrow> bool \<Rightarrow> repo_state extractors" where
  "repo_extractors utils_distance inside_test with_stability with_transition =
     \<lparr>human_extractor = HumanPresenceFeatures_extract,
      epi_extractor = EPIFeatures_extract,
      machine_extractor = MachineVehicleFeatures_extract,
      proximity_extractor = ProximityFeatures_extract utils_distance,
      temporal_extractor = TemporalDynamicsFeatures_extract,
      zone_extractor = ZoneFeatures_extract inside_test,
      stability_extractor =
        (if with_stability then Some ActivityStabilityFeatures_extract else None),
      transition_extractor =
        (if with_transition then Some ActivityTransitionFeatures_extract else None)\<rparr>"

text \<open>Fresh extractor objects for a run with 10-second windows on a 1920 x 1080 image.\<close>

definition demo_state :: repo_state where
  "demo_state =
     \<lparr>human_obj = HumanPresenceFeatures_init 1920 1080 2,
      epi_obj = EPIFeatures_init 10 3,
      machine_obj = \<lparr>mach_window_duration = 10\<rparr>,
      proximity_obj = \<lparr>prox_window_duration = 10, danger_distance_pp = 100,
                       danger_distance_pm = 150\<rparr>,
      temporal_obj = \<lparr>td_window_duration = 10, sudden_stop_threshold = 1 / 2,
                      high_speed_threshold = 50, near_machine_distance = 150\<rparr>,
      zone_obj = ZoneFeatures_init [origin_square] (Some zero_matrix) 10,
      stability_obj = ActivityStabilityFeatures_init 5,
      transition_obj = ActivityTransitionFeatures_init 5 (1 / 2)\<rparr>"

text \<open>
  What the concrete runs pass for the four-argument distance of the missing
  \<^verbatim>\<open>utils/geometry.py\<close>: the distance between the two points.
\<close>

definition demo_distance :: "real \<Rightarrow> real \<Rightarrow> real \<Rightarrow> real \<Rightarrow> real" where
  "demo_distance x1 y1 x2 y2 = euclidean_distance (x1, y1) (x2, y2)"

text \<open>A stage of the row's construction either raises or holds a row with at least one key.\<close>

definition row_present :: "pyerror + (row \<times> 'st) \<Rightarrow> bool" where
  "row_present x = (case x of Inl e \<Rightarrow> True | Inr (row, st) \<Rightarrow> row \<noteq> [])"


section \<open>Bounded histories and statistics: basic facts\<close>

lemma length_deque_append:
  "length (deque_append n xs x) = (if length xs + 1 > n then length xs else length xs + 1)"
  by (simp add: deque_append_def)


lemma deque_append_map: "deque_append n (map f xs) (f x) = map f (deque_append n xs x)"
  by (simp add: deque_append_def map_tl)




lemma timedelta_seconds_whole:
  "timedelta_seconds (of_int i / 1000000) = of_int i / 1000000"
  by (simp add: timedelta_seconds_def py_round_def)

lemma timedelta_seconds_demo:
  "timedelta_seconds 10 = 10" "timedelta_seconds 5 = 5"
  by (simp_all add: timedelta_seconds_def py_round_def)

section \<open>Pipeline: rows and tables\<close>

lemma ML_FEATURE_COLUMNS_length: "length ML_FEATURE_COLUMNS = 30"
  by (simp add: ML_FEATURE_COLUMNS_def)

lemma ML_FEATURE_COLUMNS_distinct: "distinct ML_FEATURE_COLUMNS"
  by (simp add: ML_FEATURE_COLUMNS_def)

lemma set_unique: "set (unique xs) = set xs"
  by (simp add: unique_def)

lemma dict_update_nonempty: "r \<noteq> [] \<Longrightarrow> dict_update r d \<noteq> []"
proof -
  have upd: "AList.update k v al \<noteq> []" for k :: string and v :: cell and al
    by (cases al) auto
  have "r \<noteq> [] \<Longrightarrow> foldl (\<lambda>acc kv. AList.update (fst kv) (snd kv) acc) r d \<noteq> []"
    by (induction d arbitrary: r) (simp_all add: upd)
  then show "r \<noteq> [] \<Longrightarrow> dict_update r d \<noteq> []"
    by (simp add: dict_update_def)
qed

lemma row_present_update_from:
  "row_present acc \<Longrightarrow> row_present (update_from w acc m)"
  by (auto simp: row_present_def update_from_def py_bind_def dict_update_nonempty
      split: sum.splits prod.splits)

lemma row_present_foldl:
  "row_present acc \<Longrightarrow> row_present (foldl (update_from w) acc ms)"
  by (induction ms arbitrary: acc) (simp_all add: row_present_update_from)

lemma row_present_stability:
  "row \<noteq> [] \<Longrightarrow> row_present (stability_update exs (row, st))"
  by (auto simp: row_present_def stability_update_def py_bind_def dict_update_nonempty
      split: sum.splits prod.splits option.splits)

lemma row_present_transition:
  "row \<noteq> [] \<Longrightarrow> row_present (transition_update exs prev (row, st))"
  by (auto simp: row_present_def transition_update_def py_bind_def dict_update_nonempty
      split: sum.splits prod.splits option.splits)

lemma build_row_nonempty:
  assumes "build_row exs i w prev st = Inr (row, st')"
  shows "row \<noteq> []"
proof -
  let ?a = "foldl (update_from w) (Inr (window_metadata i w, st))
      [human_extractor exs, epi_extractor exs, machine_extractor exs,
       proximity_extractor exs, temporal_extractor exs, zone_extractor exs]"
  have "row_present (Inr (window_metadata i w, st))"
    by (simp add: row_present_def window_metadata_def)
  then have pa: "row_present ?a" by (rule row_present_foldl)
  from assms obtain r1 s1 where a: "?a = Inr (r1, s1)"
    by (cases ?a) (auto simp: build_row_def py_bind_def)
  with pa have r1: "r1 \<noteq> []" by (simp add: row_present_def)
  from assms a obtain r2 s2 where b: "stability_update exs (r1, s1) = Inr (r2, s2)"
    by (cases "stability_update exs (r1, s1)") (auto simp: build_row_def py_bind_def)
  with row_present_stability [OF r1, of exs s1] have r2: "r2 \<noteq> []"
    by (simp add: row_present_def)
  from assms a b have "transition_update exs prev (r2, s2) = Inr (row, st')"
    by (simp add: build_row_def py_bind_def)
  with row_present_transition [OF r2, of exs prev s2] show ?thesis
    by (simp add: row_present_def)
qed

lemma pipeline_loop_rows:
  assumes "pipeline_loop exs mw i ws rows st = Inr (rows', st')"
    and "\<forall>r\<in>set rows. r \<noteq> []"
  shows "(\<forall>r\<in>set rows'. r \<noteq> []) \<and> length rows \<le> length rows'"
  using assms
proof (induction ws arbitrary: i rows st)
  case Nil
  then show ?case by simp
next
  case (Cons w ws)
  show ?case
  proof (cases "case mw of None \<Rightarrow> False | Some m \<Rightarrow> int i \<ge> m")
    case True
    with Cons.prems show ?thesis by simp
  next
    case nb: False
    show ?thesis
    proof (cases "w = []")
      case True
      with nb Cons.prems(1) have "pipeline_loop exs mw (i + 1) ws rows st = Inr (rows', st')"
        by simp
      from Cons.IH [OF this Cons.prems(2)] show ?thesis .
    next
      case False
      with nb Cons.prems(1) obtain row s1 where
        b: "build_row exs i w rows st = Inr (row, s1)"
        and l: "pipeline_loop exs mw (i + 1) ws (rows @ [row]) s1 = Inr (rows', st')"
        by (cases "build_row exs i w rows st") (auto simp: py_bind_def)
      from build_row_nonempty [OF b] Cons.prems(2)
      have "\<forall>r\<in>set (rows @ [row]). r \<noteq> []" by simp
      from Cons.IH [OF l this] show ?thesis by simp
    qed
  qed
qed

lemma reindex_cell:
  assumes "r \<in> set rows"
  shows "(case map_of (zip (fst (DataFrame rows)) (map (row_cell r) (fst (DataFrame rows)))) c of
            None \<Rightarrow> NoneV | Some v \<Rightarrow> v) = row_cell r c"
proof -
  let ?cols = "fst (DataFrame rows)"
  have cols: "set ?cols = (\<Union>r\<in>set rows. fst ` set r)"
    by (simp add: DataFrame_def Let_def set_unique)
  show ?thesis
  proof (cases "c \<in> set ?cols")
    case True
    then show ?thesis by (simp add: map_of_zip_map)
  next
    case False
    with cols assms have "c \<notin> fst ` set r" by blast
    then have "map_of r c = None" by (simp add: map_of_eq_None_iff)
    with False show ?thesis by (simp add: map_of_zip_map row_cell_def)
  qed
qed

lemma pipeline_tables_rows:
  assumes "rows \<noteq> []" and "\<forall>r\<in>set rows. r \<noteq> []"
  shows "pipeline_tables rows
           = (DataFrame rows,
              (ML_FEATURE_COLUMNS,
               map (\<lambda>r. map (\<lambda>c. if row_cell r c = NoneV then Num 0 else row_cell r c)
                             ML_FEATURE_COLUMNS) rows))"
proof -
  from assms obtain r0 rest where rows: "rows = r0 # rest" and r0: "r0 \<noteq> []"
    by (cases rows) auto
  then obtain kv where "kv \<in> set r0" by (cases r0) auto
  then have "fst kv \<in> set (fst (DataFrame rows))"
    using rows by (auto simp: DataFrame_def Let_def set_unique)
  then have ne: "\<not> df_empty (DataFrame rows)"
    using assms(1) by (auto simp: df_empty_def DataFrame_def Let_def)
  have data: "snd (DataFrame rows) = map (\<lambda>r. map (row_cell r) (fst (DataFrame rows))) rows"
    by (simp add: DataFrame_def Let_def)
  have "snd (fillna (Num 0) (reindex ML_FEATURE_COLUMNS (DataFrame rows)))
      = map (\<lambda>r. map (\<lambda>c. if row_cell r c = NoneV then Num 0 else row_cell r c)
                      ML_FEATURE_COLUMNS) rows"
    unfolding fillna_def reindex_def data
    by (simp add: comp_def reindex_cell cong: map_cong)
  moreover have "fst (fillna (Num 0) (reindex ML_FEATURE_COLUMNS (DataFrame rows)))
      = ML_FEATURE_COLUMNS"
    by (simp add: fillna_def reindex_def)
  ultimately have "fillna (Num 0) (reindex ML_FEATURE_COLUMNS (DataFrame rows))
      = (ML_FEATURE_COLUMNS,
         map (\<lambda>r. map (\<lambda>c. if row_cell r c = NoneV then Num 0 else row_cell r c)
                       ML_FEATURE_COLUMNS) rows)"
    by (metis prod.collapse)
  with ne show ?thesis by (simp add: pipeline_tables_def Let_def)
qed

text \<open>
  Claim C1, as the code has it. When a run returns its two tables and at least one row
  was emitted, the second table has exactly the columns of ML_FEATURE_COLUMNS, in that
  order, and they are 30, not 29. Each of its rows comes from one emitted row: the cell
  of a column is the row's value for it, or 0 when the row has no such key or holds None
  there; so the table has as many rows as the first one and no missing value.
\<close>

theorem ml_table_schema:
  assumes "extract_features_pipeline n sw exs cams s e mw st = Some (Inr ((df_all, df_ml), st'))"
    and "snd df_all \<noteq> []"
  shows "fst df_ml = ML_FEATURE_COLUMNS \<and> length (fst df_ml) = 30 \<and> distinct (fst df_ml)
       \<and> (\<exists>rows. df_all = DataFrame rows
             \<and> snd df_ml
                 = map (\<lambda>r. map (\<lambda>c. if row_cell r c = NoneV then Num 0 else row_cell r c)
                                 ML_FEATURE_COLUMNS) rows)
       \<and> length (snd df_ml) = length (snd df_all)
       \<and> (\<forall>cells \<in> set (snd df_ml). length cells = 30 \<and> NoneV \<notin> set cells)"
proof -
  let ?ws = "generate n sw cams s e"
  from assms(1) obtain rows where
    loop: "pipeline_loop exs mw 0 ?ws [] st = Inr (rows, st')"
    and tabs: "pipeline_tables rows = (df_all, df_ml)"
    by (cases "pipeline_loop exs mw 0 ?ws [] st")
       (auto simp: extract_features_pipeline_def Let_def py_bind_def split: if_splits)
  from pipeline_loop_rows [OF loop] have ne: "\<forall>r\<in>set rows. r \<noteq> []" by simp
  have all: "df_all = DataFrame rows"
    using tabs by (auto simp: pipeline_tables_def Let_def split: if_splits)
  with assms(2) have rows: "rows \<noteq> []"
    by (auto simp: DataFrame_def Let_def)
  from pipeline_tables_rows [OF rows ne] tabs have
    ml: "df_ml = (ML_FEATURE_COLUMNS,
         map (\<lambda>r. map (\<lambda>c. if row_cell r c = NoneV then Num 0 else row_cell r c)
                       ML_FEATURE_COLUMNS) rows)"
    by simp
  have len: "length (snd df_ml) = length (snd df_all)"
    using ml all by (simp add: DataFrame_def Let_def)
  have cells: "\<forall>cells \<in> set (snd df_ml). length cells = 30 \<and> NoneV \<notin> set cells"
    using ml by (auto simp: ML_FEATURE_COLUMNS_length)
  from ml all len cells show ?thesis
    by (auto simp: ML_FEATURE_COLUMNS_length ML_FEATURE_COLUMNS_distinct)
qed

section \<open>Pipeline: runs with the repository's extractors\<close>

lemma py_call_window_method:
  "py_call (window_method p f) [AWindow w] [] st = f w st"
  by (simp add: py_call_def window_method_def)

lemma update_from_window_method:
  assumes "\<And>w st. \<not> isl (f w st)" and "\<not> isl acc"
  shows "\<not> isl (update_from w acc (window_method p f))"
proof -
  from assms(2) obtain row st where acc: "acc = Inr (row, st)"
    by (cases acc) auto
  from assms(1) [of w st] obtain d st1 where "f w st = Inr (d, st1)"
    by (cases "f w st") auto
  with acc show ?thesis
    by (simp add: update_from_def py_bind_def py_call_window_method)
qed

lemma repo_window_stages:
  assumes "\<not> isl acc"
  shows "\<not> isl (update_from w acc HumanPresenceFeatures_extract)"
    and "\<not> isl (update_from w acc EPIFeatures_extract)"
    and "\<not> isl (update_from w acc MachineVehicleFeatures_extract)"
    and "\<not> isl (update_from w acc (ProximityFeatures_extract d))"
    and "\<not> isl (update_from w acc TemporalDynamicsFeatures_extract)"
    and "\<not> isl (update_from w acc (ZoneFeatures_extract t))"
  unfolding HumanPresenceFeatures_extract_def EPIFeatures_extract_def
    MachineVehicleFeatures_extract_def ProximityFeatures_extract_def
    TemporalDynamicsFeatures_extract_def ZoneFeatures_extract_def
  by (rule update_from_window_method; (simp add: assms split: prod.splits))+

lemma repo_six_stages:
  "\<not> isl (foldl (update_from w) (Inr (window_metadata i w, st))
      [human_extractor (repo_extractors d t b1 b2), epi_extractor (repo_extractors d t b1 b2),
       machine_extractor (repo_extractors d t b1 b2),
       proximity_extractor (repo_extractors d t b1 b2),
       temporal_extractor (repo_extractors d t b1 b2),
       zone_extractor (repo_extractors d t b1 b2)])"
  by (simp add: repo_extractors_def repo_window_stages)

lemma repo_build_row_plain:
  "\<not> isl (build_row (repo_extractors d t False False) i w prev st)"
proof -
  let ?exs = "repo_extractors d t False False"
  from repo_six_stages [of w i st d t False False] obtain r1 s1 where
    a: "foldl (update_from w) (Inr (window_metadata i w, st))
      [human_extractor ?exs, epi_extractor ?exs, machine_extractor ?exs,
       proximity_extractor ?exs, temporal_extractor ?exs, zone_extractor ?exs] = Inr (r1, s1)"
    by (metis isl_def sum.exhaust_sel surj_pair sum.collapse(2))
  have "stability_extractor ?exs = None" "transition_extractor ?exs = None"
    by (simp_all add: repo_extractors_def)
  then show ?thesis
    unfolding build_row_def a
    by (simp add: py_bind_def stability_update_def transition_update_def)
qed

lemma repo_pipeline_loop_plain:
  "\<not> isl (pipeline_loop (repo_extractors d t False False) mw i ws rows st)"
proof (induction ws arbitrary: i rows st)
  case Nil
  show ?case by simp
next
  case (Cons w ws)
  obtain row s1 where b: "build_row (repo_extractors d t False False) i w rows st = Inr (row, s1)"
    using repo_build_row_plain [of d t i w rows st]
    by (cases "build_row (repo_extractors d t False False) i w rows st") auto
  show ?case
    using Cons.IH b by (simp add: py_bind_def)
qed

lemma demo_windows:
  "generate 10 demo_window_source [1] 0 20
     = [[det 0 ''person'' 0 0 10 20 1, det 4 ''person'' 1 0 10 20 1],
        [det 12 ''vehicle'' 50 50 30 30 2], [det 12 ''vehicle'' 50 50 30 30 2]]"
  by (simp add: generate_def demo_window_source_def timedelta_seconds_demo eval_nat_numeral
      det_def)

lemma demo_run_plain:
  "\<exists>rows st'. rows \<noteq> [] \<and> (\<forall>r\<in>set rows. r \<noteq> [])
     \<and> extract_features_pipeline 10 demo_window_source
          (repo_extractors demo_distance point_in_polygon False False) [1] 0 20 None demo_state
        = Some (Inr (pipeline_tables rows, st'))"
proof -
  let ?exs = "repo_extractors demo_distance point_in_polygon False False"
  let ?ws = "generate 10 demo_window_source [1] 0 20"
  obtain rows st' where loop: "pipeline_loop ?exs None 0 ?ws [] demo_state = Inr (rows, st')"
    using repo_pipeline_loop_plain [of demo_distance point_in_polygon None 0 ?ws "[]" demo_state]
    by (cases "pipeline_loop ?exs None 0 ?ws [] demo_state") auto
  let ?w0 = "[det 0 ''person'' 0 0 10 20 1, det 4 ''person'' 1 0 10 20 1]"
  let ?rest = "[[det 12 ''vehicle'' 50 50 30 30 2], [det 12 ''vehicle'' 50 50 30 30 2]]"
  obtain row s1 where b: "build_row ?exs 0 ?w0 [] demo_state = Inr (row, s1)"
    using repo_build_row_plain [of demo_distance point_in_polygon 0 ?w0 "[]" demo_state]
    by (cases "build_row ?exs 0 ?w0 [] demo_state") auto
  have l1: "pipeline_loop ?exs None 1 ?rest [row] s1 = Inr (rows, st')"
    using loop b unfolding demo_windows by (simp add: py_bind_def)
  have "\<forall>r\<in>set [row]. r \<noteq> []"
    using build_row_nonempty [OF b] by simp
  from pipeline_loop_rows [OF l1 this] have
    ne: "\<forall>r\<in>set rows. r \<noteq> []" and "length [row] \<le> length rows"
    by simp_all
  then have rows: "rows \<noteq> []" by auto
  have len: "length ?ws = 3" unfolding demo_windows by simp
  have "extract_features_pipeline 10 demo_window_source ?exs [1] 0 20 None demo_state
      = Some (Inr (pipeline_tables rows, st'))"
    using loop len by (simp add: extract_features_pipeline_def Let_def py_bind_def)
  with rows ne show ?thesis by blast
qed

theorem ml_table_schema_witness:
  "\<exists>df_all df_ml st'.
      extract_features_pipeline 10 demo_window_source
        (repo_extractors demo_distance point_in_polygon False False) [1] 0 20 None demo_state
      = Some (Inr ((df_all, df_ml), st'))
    \<and> snd df_all \<noteq> []
    \<and> fst df_ml = ML_FEATURE_COLUMNS
    \<and> length (fst df_ml) = 30
    \<and> length (snd df_ml) = length (snd df_all)"
proof -
  from demo_run_plain obtain rows st' where rows: "rows \<noteq> []"
    and run: "extract_features_pipeline 10 demo_window_source
        (repo_extractors demo_distance point_in_polygon False False) [1] 0 20 None demo_state
      = Some (Inr (pipeline_tables rows, st'))"
    by blast
  obtain df_all df_ml where t: "pipeline_tables rows = (df_all, df_ml)"
    by (cases "pipeline_tables rows") auto
  have all: "df_all = DataFrame rows"
    using t by (auto simp: pipeline_tables_def Let_def split: if_splits)
  have ne: "snd df_all \<noteq> []"
    using rows all by (simp add: DataFrame_def Let_def)
  from ml_table_schema [OF run [unfolded t] ne] run t ne show ?thesis
    by auto
qed

text \<open>
  The claim as written fails on the number of columns: in a run that emits rows, the
  second table has 30 columns, not 29.
\<close>

theorem ml_table_columns_counterexample:
  "snd (fst (fst (projr (the (extract_features_pipeline 10 demo_window_source
        (repo_extractors demo_distance point_in_polygon False False) [1] 0 20 None
        demo_state))))) \<noteq> []
   \<and> length (fst (snd (fst (projr (the (extract_features_pipeline 10 demo_window_source
        (repo_extractors demo_distance point_in_polygon False False) [1] 0 20 None
        demo_state)))))) = 30"
proof -
  from demo_run_plain obtain rows st' where rows: "rows \<noteq> []"
    and ne: "\<forall>r\<in>set rows. r \<noteq> []"
    and run: "extract_features_pipeline 10 demo_window_source
        (repo_extractors demo_distance point_in_polygon False False) [1] 0 20 None demo_state
      = Some (Inr (pipeline_tables rows, st'))"
    by blast
  show ?thesis
    unfolding run
    by (simp add: pipeline_tables_rows [OF rows ne] DataFrame_def Let_def rows
        ML_FEATURE_COLUMNS_length)
qed


section \<open>Pipeline: the call of the transition extractor\<close>

lemma transition_call_raises:
  "py_call ActivityTransitionFeatures_extract []
     [(''current_row'', ARow row), (''history'', ARows previous_rows)] st = Inl TypeError"
  by (simp add: py_call_def ActivityTransitionFeatures_extract_def row_method_def)

lemma pyerror_only: "(e :: pyerror) = TypeError"
  by (cases e) simp

lemma repo_build_row_raises:
  "build_row (repo_extractors d t b True) i w prev st = Inl TypeError"
proof -
  let ?exs = "repo_extractors d t b True"
  from repo_six_stages [of w i st d t b True] obtain r1 s1 where
    a: "foldl (update_from w) (Inr (window_metadata i w, st))
      [human_extractor ?exs, epi_extractor ?exs, machine_extractor ?exs,
       proximity_extractor ?exs, temporal_extractor ?exs, zone_extractor ?exs] = Inr (r1, s1)"
    by (metis isl_def sum.exhaust_sel surj_pair sum.collapse(2))
  have tr: "transition_update ?exs prev acc = Inl TypeError" for acc
    by (cases acc)
       (simp add: transition_update_def repo_extractors_def transition_call_raises py_bind_def)
  show ?thesis
  proof (cases "stability_update ?exs (r1, s1)")
    case (Inl e)
    then show ?thesis
      unfolding build_row_def a by (simp add: py_bind_def pyerror_only [of e])
  next
    case (Inr acc)
    then show ?thesis
      unfolding build_row_def a by (simp add: py_bind_def tr)
  qed
qed

lemma repo_pipeline_loop_raises:
  assumes "w \<noteq> []" and "\<not> (case mw of None \<Rightarrow> False | Some m \<Rightarrow> int i \<ge> m)"
  shows "pipeline_loop (repo_extractors d t b True) mw i (w # ws) rows st = Inl TypeError"
  using assms by (simp add: repo_build_row_raises py_bind_def)

text \<open>
  Claim C2 says a run with a transition extractor configured calls it with the current
  row and the earlier rows, merges its three fields and ends without an exception. The
  pipeline calls \<^verbatim>\<open>extract(current_row=row, history=previous_rows)\<close>, and the only
  parameter of \<^verbatim>\<open>ActivityTransitionFeatures.extract\<close> is \<^verbatim>\<open>current_features\<close>: the call
  raises TypeError at the first window that is not empty, with or without the stability
  extractor, and the run returns no table.
\<close>

theorem pipeline_transition_type_error:
  "extract_features_pipeline 10 demo_window_source
     (repo_extractors demo_distance point_in_polygon True True) [1] 0 20 None demo_state
     = Some (Inl TypeError)
   \<and> extract_features_pipeline 10 demo_window_source
     (repo_extractors demo_distance point_in_polygon False True) [1] 0 20 None demo_state
     = Some (Inl TypeError)
   \<and> py_call ActivityTransitionFeatures_extract []
       [(''current_row'', ARow (window_metadata 0
           [det 0 ''person'' 0 0 10 20 1, det 4 ''person'' 1 0 10 20 1])),
        (''history'', ARows [])] demo_state = Inl TypeError"
proof -
  have len: "length (generate 10 demo_window_source [1] 0 20) = 3"
    unfolding demo_windows by simp
  have loop: "pipeline_loop (repo_extractors demo_distance point_in_polygon b True) None 0
      (generate 10 demo_window_source [1] 0 20) [] demo_state = Inl TypeError" for b
    unfolding demo_windows by (rule repo_pipeline_loop_raises) simp_all
  have run: "extract_features_pipeline 10 demo_window_source
     (repo_extractors demo_distance point_in_polygon b True) [1] 0 20 None demo_state
     = Some (Inl TypeError)" for b
    using len by (simp add: extract_features_pipeline_def Let_def loop py_bind_def)
  from run [of True] run [of False] transition_call_raises show ?thesis by blast
qed


section \<open>Protective-equipment extractor: the consecutive-violation counter\<close>









section \<open>Window generator: the emitted windows\<close>

lemma generate_from_length:
  "k < length (generate_from n df wd st e cur)
     \<longleftrightarrow> k < n \<and> (\<forall>j\<le>k. cur + real j * st + wd \<le> e)"
proof (induction n arbitrary: cur k)
  case 0
  show ?case by simp
next
  case (Suc n)
  show ?case
  proof (cases "cur + wd \<le> e")
    case False
    then have "\<not> (\<forall>j\<le>k. cur + real j * st + wd \<le> e)"
      by (auto intro: exI [of _ 0])
    with False show ?thesis by simp
  next
    case True
    show ?thesis
    proof (cases k)
      case 0
      with True show ?thesis by simp
    next
      case (Suc k')
      have shift: "(\<forall>j\<le>Suc k'. cur + real j * st + wd \<le> e)
          \<longleftrightarrow> (\<forall>j\<le>k'. cur + st + real j * st + wd \<le> e)"
      proof
        assume a: "\<forall>j\<le>Suc k'. cur + real j * st + wd \<le> e"
        show "\<forall>j\<le>k'. cur + st + real j * st + wd \<le> e"
        proof (intro allI impI)
          fix j assume "j \<le> k'"
          then have "Suc j \<le> Suc k'" by simp
          with a have "cur + real (Suc j) * st + wd \<le> e" by blast
          then show "cur + st + real j * st + wd \<le> e" by (simp add: algebra_simps)
        qed
      next
        assume a: "\<forall>j\<le>k'. cur + st + real j * st + wd \<le> e"
        show "\<forall>j\<le>Suc k'. cur + real j * st + wd \<le> e"
        proof (intro allI impI)
          fix j assume j: "j \<le> Suc k'"
          show "cur + real j * st + wd \<le> e"
          proof (cases j)
            case 0
            with True show ?thesis by simp
          next
            case (Suc i)
            with j have "i \<le> k'" by simp
            with a have "cur + st + real i * st + wd \<le> e" by blast
            with Suc show ?thesis by (simp add: algebra_simps)
          qed
        qed
      qed
      from True Suc Suc.IH [of k' "cur + st"] shift show ?thesis by simp
    qed
  qed
qed

lemma generate_from_nth:
  "k < length (generate_from n df wd st e cur) \<Longrightarrow>
   generate_from n df wd st e cur ! k
     = filter (\<lambda>d. cur + real k * st \<le> timestamp d
                    \<and> timestamp d < cur + real k * st + wd) df"
proof (induction n arbitrary: cur k)
  case 0
  then show ?case by simp
next
  case (Suc n)
  from Suc.prems have t: "cur + wd \<le> e"
    by (auto split: if_splits)
  show ?case
  proof (cases k)
    case 0
    with t show ?thesis by simp
  next
    case (Suc k')
    with Suc.prems t have "k' < length (generate_from n df wd st e (cur + st))" by simp
    from Suc.IH [OF this] Suc t show ?thesis by (simp add: algebra_simps)
  qed
qed

lemma generate_from_finite:
  assumes "0 < st"
  shows "\<exists>N. \<forall>n. length (generate_from n df wd st e cur) \<le> N"
proof -
  obtain N :: nat where N: "e - cur - wd < real N * st"
    using ex_less_of_nat_mult [OF assms, of "e - cur - wd"] by auto
  have "length (generate_from n df wd st e cur) \<le> N" for n
  proof (rule ccontr)
    assume "\<not> length (generate_from n df wd st e cur) \<le> N"
    then have "N < length (generate_from n df wd st e cur)" by simp
    then have "cur + real N * st + wd \<le> e"
      using generate_from_length [of N n df wd st e cur] by blast
    with N show False by simp
  qed
  then show ?thesis by blast
qed

lemma generate_from_endless:
  assumes "st \<le> 0" and "cur + wd \<le> e"
  shows "length (generate_from n df wd st e cur) = n"
proof -
  have all: "\<forall>j\<le>k. cur + real j * st + wd \<le> e" for k
  proof (intro allI impI)
    fix j :: nat
    have "real j * st \<le> 0"
      using assms(1) by (simp add: mult_nonneg_nonpos)
    with assms(2) show "cur + real j * st + wd \<le> e" by simp
  qed
  have "k < length (generate_from n df wd st e cur) \<longleftrightarrow> k < n" for k
    using generate_from_length [of k n df wd st e cur] all [of k] by blast
  then show ?thesis
    by (metis less_irrefl nat_neq_iff)
qed

lemma py_round_near: "\<bar>of_int (py_round y) - y\<bar> \<le> 1 / 2"
proof -
  have "of_int \<lfloor>y\<rfloor> \<le> y" "y < of_int \<lfloor>y\<rfloor> + 1" by linarith+
  then show ?thesis
    by (auto simp: py_round_def Let_def)
qed

text \<open>
  Claim C4, as the code has it. The loop adds \<^verbatim>\<open>timedelta(seconds=step)\<close> and
  \<^verbatim>\<open>timedelta(seconds=window_duration)\<close>, which are the step and the duration rounded to
  whole microseconds (at most half a microsecond away, and unchanged when they are whole
  microseconds already). With a non-empty bulk load, the k-th window the generator
  yields is exactly the loaded detections with start_time + k step' \<le> timestamp <
  start_time + k step' + duration', for the rounded step' and duration'; a k-th window
  is yielded exactly when every window up to the k-th still ends at or before end_time
  (the loop's condition held each time round); an empty load yields nothing; with a
  positive rounded step the sequence is finite; with a rounded step that is zero or
  negative and a first window within the range, the generator never stops: however many
  windows are drawn, it yields that many.
\<close>

theorem generate_windows:
  fixes self :: SlidingWindow
  shows "(k < length (generate n self cams start_time end_time) \<longrightarrow>
            generate n self cams start_time end_time ! k
              = filter (\<lambda>d. start_time + real k * timedelta_seconds (sw_step self)
                               \<le> timestamp d
                             \<and> timestamp d
                                 < start_time + real k * timedelta_seconds (sw_step self)
                                   + timedelta_seconds (sw_window_duration self))
                       (get_detections self cams start_time end_time)
            \<and> start_time + real k * timedelta_seconds (sw_step self)
                + timedelta_seconds (sw_window_duration self) \<le> end_time)
       \<and> (k < length (generate n self cams start_time end_time) \<longleftrightarrow>
            get_detections self cams start_time end_time \<noteq> [] \<and> k < n
            \<and> (\<forall>j\<le>k. start_time + real j * timedelta_seconds (sw_step self)
                         + timedelta_seconds (sw_window_duration self) \<le> end_time))
       \<and> (get_detections self cams start_time end_time = [] \<longrightarrow>
            generate n self cams start_time end_time = [])
       \<and> (0 < timedelta_seconds (sw_step self) \<longrightarrow>
            (\<exists>N. \<forall>m. length (generate m self cams start_time end_time) \<le> N))
       \<and> (timedelta_seconds (sw_step self) \<le> 0
            \<and> get_detections self cams start_time end_time \<noteq> []
            \<and> start_time + timedelta_seconds (sw_window_duration self) \<le> end_time \<longrightarrow>
            length (generate n self cams start_time end_time) = n)
       \<and> \<bar>timedelta_seconds x - x\<bar> \<le> 1 / 2000000
       \<and> timedelta_seconds (of_int i / 1000000) = of_int i / 1000000"
proof -
  let ?loaded = "get_detections self cams start_time end_time"
  let ?wd = "timedelta_seconds (sw_window_duration self)"
  let ?st = "timedelta_seconds (sw_step self)"
  have gen: "generate m self cams start_time end_time
      = (if ?loaded = [] then [] else generate_from m ?loaded ?wd ?st end_time start_time)"
    for m
    by (simp add: generate_def Let_def)
  have len: "k < length (generate n self cams start_time end_time) \<longleftrightarrow>
      ?loaded \<noteq> [] \<and> k < n \<and> (\<forall>j\<le>k. start_time + real j * ?st + ?wd \<le> end_time)"
    using generate_from_length [of k n ?loaded ?wd ?st end_time start_time]
    by (simp add: gen)
  have nth: "generate n self cams start_time end_time ! k
      = filter (\<lambda>d. start_time + real k * ?st \<le> timestamp d
                     \<and> timestamp d < start_time + real k * ?st + ?wd) ?loaded"
    if "k < length (generate n self cams start_time end_time)"
  proof -
    from that have ne: "?loaded \<noteq> []" using len by blast
    with that have "k < length (generate_from n ?loaded ?wd ?st end_time start_time)"
      by (simp add: gen)
    from generate_from_nth [OF this] ne show ?thesis
      by (simp add: gen)
  qed
  have bound: "start_time + real k * ?st + ?wd \<le> end_time"
    if "k < length (generate n self cams start_time end_time)"
    using that len by blast
  have emp: "?loaded = [] \<longrightarrow> generate n self cams start_time end_time = []"
    by (simp add: gen)
  have fin: "\<exists>N. \<forall>m. length (generate m self cams start_time end_time) \<le> N"
    if "0 < ?st"
  proof -
    from generate_from_finite [OF that] obtain N where
      "\<forall>m. length (generate_from m ?loaded ?wd ?st end_time start_time) \<le> N"
      by blast
    then have "\<forall>m. length (generate m self cams start_time end_time) \<le> N"
      by (simp add: gen)
    then show ?thesis by blast
  qed
  have endless: "length (generate n self cams start_time end_time) = n"
    if "?st \<le> 0" "?loaded \<noteq> []" "start_time + ?wd \<le> end_time"
    using generate_from_endless [OF that(1,3), of n ?loaded] that(2) by (simp add: gen)
  have near: "\<bar>timedelta_seconds x - x\<bar> \<le> 1 / 2000000"
  proof -
    have e: "timedelta_seconds x - x
        = (of_int (py_round (x * 1000000)) - x * 1000000) / 1000000"
      by (simp add: timedelta_seconds_def field_simps)
    have "\<bar>timedelta_seconds x - x\<bar>
        = \<bar>of_int (py_round (x * 1000000)) - x * 1000000\<bar> / \<bar>1000000\<bar>"
      unfolding e by (rule abs_divide)
    also have "\<dots> \<le> (1 / 2) / \<bar>1000000\<bar>"
      using py_round_near [of "x * 1000000"] by (intro divide_right_mono) simp_all
    finally show ?thesis by simp
  qed
  have whole: "timedelta_seconds (of_int i / 1000000) = of_int i / 1000000"
    by (simp add: timedelta_seconds_def py_round_def)
  from len nth bound emp fin endless near whole show ?thesis by blast
qed

theorem generate_windows_witness:
  "1 < length (generate 10 demo_window_source [1] 0 20)
   \<and> generate 10 demo_window_source [1] 0 20 ! 1 = [det 12 ''vehicle'' 50 50 30 30 2]
   \<and> length (generate 10 demo_window_source [1] 0 20) = 3
   \<and> 0 < timedelta_seconds (sw_step demo_window_source)
   \<and> (\<exists>N. \<forall>m. length (generate m demo_window_source [1] 0 20) \<le> N)
   \<and> generate 10 \<lparr>get_detections = (\<lambda>cams s e. []), sw_window_duration = 10, sw_step = 5\<rparr>
        [1] 0 20 = []
   \<and> timedelta_seconds (1 / 4194304) = 0
   \<and> length (generate 7
        \<lparr>get_detections = (\<lambda>cams s e. [det 0 ''person'' 0 0 10 20 1]),
         sw_window_duration = 10, sw_step = 1 / 4194304\<rparr> [1] 0 20) = 7"
proof -
  let ?tiny = "\<lparr>get_detections = (\<lambda>cams s e. [det 0 ''person'' 0 0 10 20 1]),
         sw_window_duration = 10, sw_step = 1 / 4194304\<rparr>"
  have len: "length (generate 10 demo_window_source [1] 0 20) = 3"
    by (simp add: generate_def demo_window_source_def timedelta_seconds_demo eval_nat_numeral)
  have st: "0 < timedelta_seconds (sw_step demo_window_source)"
    by (simp add: demo_window_source_def timedelta_seconds_demo)
  have flt: "filter (\<lambda>d. 0 + real 1 * timedelta_seconds (sw_step demo_window_source)
                   \<le> timestamp d
                 \<and> timestamp d < 0 + real 1 * timedelta_seconds (sw_step demo_window_source)
                                    + timedelta_seconds (sw_window_duration demo_window_source))
               (get_detections demo_window_source [1] 0 20)
             = [det 12 ''vehicle'' 50 50 30 30 2]"
    by (simp add: demo_window_source_def timedelta_seconds_demo det_def)
  have a: "generate 10 demo_window_source [1] 0 20 ! 1 = [det 12 ''vehicle'' 50 50 30 30 2]"
    using generate_windows [of 1 10 demo_window_source "[1]" 0 20] len flt by simp
  have b: "\<exists>N. \<forall>m. length (generate m demo_window_source [1] 0 20) \<le> N"
    using generate_windows [of 1 10 demo_window_source "[1]" 0 20] st by blast
  have c: "generate 10 \<lparr>get_detections = (\<lambda>cams s e. []), sw_window_duration = 10, sw_step = 5\<rparr>
        [1] 0 20 = []"
    using generate_windows [of 1 10
        "\<lparr>get_detections = (\<lambda>cams s e. []), sw_window_duration = 10, sw_step = 5\<rparr>" "[1]" 0 20]
    by simp
  have t0: "timedelta_seconds (1 / 4194304) = 0"
    by (simp add: timedelta_seconds_def py_round_def)
  have d: "length (generate 7 ?tiny [1] 0 20) = 7"
    using generate_windows [of 1 7 ?tiny "[1]" 0 20] t0
    by (simp add: timedelta_seconds_demo)
  from len st a b c t0 d show ?thesis by simp
qed

text \<open>
  The claim as written, with the step itself in the bounds, fails for a step that is not
  a whole number of microseconds. With a step of a third of a second the generator
  advances by 0.333333 s: its window 3 starts at 0.999999 s and holds the detection
  stamped 0.9999995 s, which is outside [3 step, 3 step + duration) = [1 s, 2 s).
\<close>

theorem generate_step_rounding_counterexample:
  "3 < length (generate 10 third_step_source [1] 0 10)
   \<and> generate 10 third_step_source [1] 0 10 ! 3
       = [det (1999999 / 2000000) ''person'' 0 0 10 20 1]
   \<and> filter (\<lambda>d. 0 + 3 * sw_step third_step_source \<le> timestamp d
                  \<and> timestamp d < 0 + 3 * sw_step third_step_source
                                     + sw_window_duration third_step_source)
        (get_detections third_step_source [1] 0 10) = []"
proof -
  have t: "timedelta_seconds (1 / 3) = 333333 / 1000000" "timedelta_seconds 1 = 1"
    by (simp_all add: timedelta_seconds_def py_round_def)
  have g: "generate 10 third_step_source [1] 0 10 ! 3
      = [det (1999999 / 2000000) ''person'' 0 0 10 20 1]"
    by (simp add: generate_def third_step_source_def t eval_nat_numeral det_def Let_def)
  have l: "3 < length (generate 10 third_step_source [1] 0 10)"
    by (simp add: generate_def third_step_source_def t eval_nat_numeral Let_def)
  have f: "filter (\<lambda>d. 0 + 3 * sw_step third_step_source \<le> timestamp d
                  \<and> timestamp d < 0 + 3 * sw_step third_step_source
                                     + sw_window_duration third_step_source)
        (get_detections third_step_source [1] 0 10) = []"
    by (simp add: third_step_source_def det_def)
  from l g f show ?thesis by blast
qed

section \<open>Activity transition extractor: scoring against the earlier history\<close>

lemma those_map_Some: "those (map Some xs) = Some xs"
  by (induction xs) simp_all

lemma np_numbers_Num: "np_numbers (map Num xs) = Inr xs"
proof -
  have "those (map cell_num (map Num xs)) = Some xs"
    by (induction xs) simp_all
  then show ?thesis unfolding np_numbers_def by (simp only: option.case)
qed

lemma foldl_deque_append:
  "length ys \<le> n \<Longrightarrow>
   foldl (deque_append n) ys xs = drop (length ys + length xs - n) (ys @ xs)"
proof (induction xs arbitrary: ys)
  case Nil
  then show ?case by simp
next
  case (Cons x xs)
  show ?case
  proof (cases "length ys + 1 > n")
    case True
    with Cons.prems have eq: "length ys = n" by simp
    have tl_drop1: "tl zs = drop 1 zs" for zs :: "'a list"
      by (cases zs) simp_all
    have d: "deque_append n ys x = drop 1 (ys @ [x])"
      unfolding deque_append_def using True by (simp only: if_True tl_drop1)
    have l: "length (deque_append n ys x) = n"
      using eq by (simp add: length_deque_append)
    have "foldl (deque_append n) (deque_append n ys x) xs
        = drop (n + length xs - n) (deque_append n ys x @ xs)"
      using Cons.IH [of "deque_append n ys x"] l by simp
    also have "\<dots> = drop (length xs) (drop 1 (ys @ [x]) @ xs)"
      using d by simp
    also have "drop 1 (ys @ [x]) @ xs = drop 1 (ys @ x # xs)"
      by (cases ys) simp_all
    also have "drop (length xs) (drop 1 (ys @ x # xs))
        = drop (length xs + 1) (ys @ x # xs)"
      by (simp only: drop_drop)
    also have "length xs + 1 = length ys + length (x # xs) - n"
      using eq by simp
    finally show ?thesis by simp
  next
    case False
    then have d: "deque_append n ys x = ys @ [x]"
      by (simp add: deque_append_def)
    from False have "length (ys @ [x]) \<le> n" by simp
    from Cons.IH [OF this] d show ?thesis by simp
  qed
qed

lemma trans_inputs_cells:
  assumes "trans_inputs r = Some (a, b, c)"
  shows "row_get r ''avg_num_persons'' (Num 0) = Num a"
    and "row_get r ''num_persons_in_zone'' (Num 0) = Num b"
    and "row_get r ''num_people_in_high_risk_zone'' (Num 0) = Num c"
proof -
  have num: "cell_num v = Some x \<Longrightarrow> v = Num x" for v x
    by (cases v) simp_all
  from assms show "row_get r ''avg_num_persons'' (Num 0) = Num a"
    by (auto simp: trans_inputs_def num split: option.splits)
  from assms show "row_get r ''num_persons_in_zone'' (Num 0) = Num b"
    by (auto simp: trans_inputs_def num split: option.splits)
  from assms show "row_get r ''num_people_in_high_risk_zone'' (Num 0) = Num c"
    by (auto simp: trans_inputs_def num split: option.splits)
qed

lemma transition_extract_warmup:
  assumes "trans_inputs r = Some (a, b, c)"
    and "length (trans_person_count_history s) < 2"
  shows "transition_extract r s
           = Inr (trans_empty_features, trans_update_history (Num a) (Num b) (Num c) s)"
  using assms(2) trans_inputs_cells [OF assms(1)]
  by (simp add: transition_extract_def Let_def)

lemma transition_extract_score:
  assumes "trans_inputs r = Some (a, b, c)"
    and "2 \<le> length h"
    and "trans_person_count_history s = map Num h"
    and "zone_count_history s = map Num z"
    and "high_risk_history s = map Num g"
  shows "transition_extract r s
           = Inr ([(''activity_change_rate'',
                    Num (if np_mean h > 0
                         then np_clip (\<bar>a - np_mean h\<bar> / (np_mean h + eps)) 0 1
                         else 0)),
                   (''zone_transition_count'', Num (of_int (py_round (np_std z)))),
                   (''risk_transition_score'',
                    Num (np_clip (np_std g / (np_mean g + eps)) 0 1))],
                  trans_update_history (Num a) (Num b) (Num c) s)"
proof -
  have z: "np_clip 0 0 1 = 0" by (simp add: np_clip_def)
  show ?thesis
    using assms(2-5) trans_inputs_cells [OF assms(1)]
    by (simp add: transition_extract_def Let_def py_bind_def np_numbers_Num z)
qed

lemma trans_update_history_fields:
  "trans_person_count_history (trans_update_history a b c s)
     = deque_append (trans_history_size s) (trans_person_count_history s) a"
  "zone_count_history (trans_update_history a b c s)
     = deque_append (trans_history_size s) (zone_count_history s) b"
  "high_risk_history (trans_update_history a b c s)
     = deque_append (trans_history_size s) (high_risk_history s) c"
  "trans_history_size (trans_update_history a b c s) = trans_history_size s"
  by (simp_all add: trans_update_history_def)

lemma transition_run_numeric:
  assumes "map trans_inputs rows = map Some vals"
    and "trans_person_count_history s = map Num h"
    and "zone_count_history s = map Num z"
    and "high_risk_history s = map Num g"
    and "trans_history_size s = hs"
  shows "\<exists>outs s'. transition_run rows s = Inr (outs, s')
           \<and> trans_person_count_history s'
               = map Num (foldl (deque_append hs) h (map fst vals))
           \<and> zone_count_history s'
               = map Num (foldl (deque_append hs) z (map (\<lambda>v. fst (snd v)) vals))
           \<and> high_risk_history s'
               = map Num (foldl (deque_append hs) g (map (\<lambda>v. snd (snd v)) vals))
           \<and> trans_history_size s' = hs"
  using assms
proof (induction rows arbitrary: vals s h z g)
  case Nil
  then show ?case by simp
next
  case (Cons r rows)
  from Cons.prems(1) obtain v vs where vals: "vals = v # vs"
    and inp: "trans_inputs r = Some v" and rest: "map trans_inputs rows = map Some vs"
    by (cases vals) auto
  obtain a b c where v: "v = (a, b, c)" by (cases v) auto
  let ?s1 = "trans_update_history (Num a) (Num b) (Num c) s"
  have ex: "\<exists>out. transition_extract r s = Inr (out, ?s1)"
  proof (cases "length (trans_person_count_history s) < 2")
    case True
    from transition_extract_warmup [OF inp [unfolded v] True] show ?thesis by blast
  next
    case False
    with Cons.prems(2) have "2 \<le> length h" by simp
    from transition_extract_score [OF inp [unfolded v] this Cons.prems(2,3,4)]
    show ?thesis by blast
  qed
  then obtain out where ex': "transition_extract r s = Inr (out, ?s1)" by blast
  have p1: "trans_person_count_history ?s1 = map Num (deque_append hs h a)"
    and z1: "zone_count_history ?s1 = map Num (deque_append hs z b)"
    and g1: "high_risk_history ?s1 = map Num (deque_append hs g c)"
    and h1: "trans_history_size ?s1 = hs"
    using Cons.prems(2-5) by (simp_all add: trans_update_history_fields deque_append_map)
  from Cons.IH [OF rest p1 z1 g1 h1] obtain outs s' where
    run: "transition_run rows ?s1 = Inr (outs, s')"
    and r1: "trans_person_count_history s'
        = map Num (foldl (deque_append hs) (deque_append hs h a) (map fst vs))"
    and r2: "zone_count_history s'
        = map Num (foldl (deque_append hs) (deque_append hs z b) (map (\<lambda>v. fst (snd v)) vs))"
    and r3: "high_risk_history s'
        = map Num (foldl (deque_append hs) (deque_append hs g c) (map (\<lambda>v. snd (snd v)) vs))"
    and r4: "trans_history_size s' = hs"
    by blast
  have "transition_run (r # rows) s = Inr (out # outs, s')"
    using ex' run by (simp add: py_bind_def)
  with r1 r2 r3 r4 vals v show ?case by simp
qed

text \<open>
  Claim C5, as the code has it. On a fresh extractor of capacity at least 2, after two or
  more calls on rows with numeric inputs, each of the three histories is the last
  \<open>history_size\<close> earlier samples of its input, the current one not among them, and the
  next call returns exactly three scores, all computed from these earlier histories:
  \<^verbatim>\<open>activity_change_rate\<close> = clip(|current - mean(history)| / (mean(history) + 1e-6), 0, 1)
  when mean(history) is positive and 0 when it is not (the code's guard),
  \<^verbatim>\<open>zone_transition_count\<close> = round(std(zone history)) and \<^verbatim>\<open>risk_transition_score\<close> =
  clip(std(risk history) / (mean(risk history) + 1e-6), 0, 1). The current sample is
  appended to the three histories in the state the call leaves behind, after the scores
  were computed from the old one.
\<close>

theorem transition_change_rate:
  assumes "2 \<le> hs" and "2 \<le> length rows"
    and "map trans_inputs rows = map Some vals"
    and "trans_inputs row = Some (cur, cz, ch)"
  shows "\<exists>outs s.
      transition_run rows (ActivityTransitionFeatures_init hs thr) = Inr (outs, s)
    \<and> trans_person_count_history s = map Num (drop (length rows - hs) (map fst vals))
    \<and> zone_count_history s
        = map Num (drop (length rows - hs) (map (\<lambda>v. fst (snd v)) vals))
    \<and> high_risk_history s
        = map Num (drop (length rows - hs) (map (\<lambda>v. snd (snd v)) vals))
    \<and> transition_extract row s
        = Inr ([(''activity_change_rate'',
                 Num (if np_mean (drop (length rows - hs) (map fst vals)) > 0
                      then np_clip
                             (\<bar>cur - np_mean (drop (length rows - hs) (map fst vals))\<bar>
                              / (np_mean (drop (length rows - hs) (map fst vals)) + eps))
                             0 1
                      else 0)),
                (''zone_transition_count'',
                 Num (of_int (py_round
                   (np_std (drop (length rows - hs) (map (\<lambda>v. fst (snd v)) vals)))))),
                (''risk_transition_score'',
                 Num (np_clip
                   (np_std (drop (length rows - hs) (map (\<lambda>v. snd (snd v)) vals))
                    / (np_mean (drop (length rows - hs) (map (\<lambda>v. snd (snd v)) vals)) + eps))
                   0 1))],
               trans_update_history (Num cur) (Num cz) (Num ch) s)
    \<and> trans_person_count_history (trans_update_history (Num cur) (Num cz) (Num ch) s)
        = deque_append hs (trans_person_count_history s) (Num cur)
    \<and> zone_count_history (trans_update_history (Num cur) (Num cz) (Num ch) s)
        = deque_append hs (zone_count_history s) (Num cz)
    \<and> high_risk_history (trans_update_history (Num cur) (Num cz) (Num ch) s)
        = deque_append hs (high_risk_history s) (Num ch)"
proof -
  let ?init = "ActivityTransitionFeatures_init hs thr"
  let ?h = "drop (length rows - hs) (map fst vals)"
  let ?z = "drop (length rows - hs) (map (\<lambda>v. fst (snd v)) vals)"
  let ?g = "drop (length rows - hs) (map (\<lambda>v. snd (snd v)) vals)"
  have len: "length vals = length rows"
    using assms(3) by (metis length_map)
  have i: "trans_person_count_history ?init = map Num []"
    "zone_count_history ?init = map Num []" "high_risk_history ?init = map Num []"
    "trans_history_size ?init = hs"
    by (simp_all add: ActivityTransitionFeatures_init_def)
  from transition_run_numeric [OF assms(3) i] obtain outs s where
    run: "transition_run rows ?init = Inr (outs, s)"
    and ph: "trans_person_count_history s
        = map Num (foldl (deque_append hs) [] (map fst vals))"
    and zh: "zone_count_history s
        = map Num (foldl (deque_append hs) [] (map (\<lambda>v. fst (snd v)) vals))"
    and gh: "high_risk_history s
        = map Num (foldl (deque_append hs) [] (map (\<lambda>v. snd (snd v)) vals))"
    and hsz: "trans_history_size s = hs"
    by blast
  have ph': "trans_person_count_history s = map Num ?h"
    using ph foldl_deque_append [of "[]" hs "map fst vals"] len by simp
  have zh': "zone_count_history s = map Num ?z"
    using zh foldl_deque_append [of "[]" hs "map (\<lambda>v. fst (snd v)) vals"] len by simp
  have gh': "high_risk_history s = map Num ?g"
    using gh foldl_deque_append [of "[]" hs "map (\<lambda>v. snd (snd v)) vals"] len by simp
  have l2: "2 \<le> length ?h"
    using assms(1,2) len by simp
  note ex = transition_extract_score [OF assms(4) l2 ph' zh' gh']
  have upd: "trans_person_count_history (trans_update_history (Num cur) (Num cz) (Num ch) s)
        = deque_append hs (trans_person_count_history s) (Num cur)"
    "zone_count_history (trans_update_history (Num cur) (Num cz) (Num ch) s)
        = deque_append hs (zone_count_history s) (Num cz)"
    "high_risk_history (trans_update_history (Num cur) (Num cz) (Num ch) s)
        = deque_append hs (high_risk_history s) (Num ch)"
    using hsz by (simp_all add: trans_update_history_fields)
  from run ph' zh' gh' ex upd show ?thesis by blast
qed

theorem transition_change_rate_witness:
  "(2::nat) \<le> 5
   \<and> map trans_inputs
         [[(''avg_num_persons'', Num 10), (''num_persons_in_zone'', Num 1),
           (''num_people_in_high_risk_zone'', Num 1)],
          [(''avg_num_persons'', Num 10), (''num_persons_in_zone'', Num 3),
           (''num_people_in_high_risk_zone'', Num 3)]]
       = map Some [(10, 1, 1), (10, 3, 3)]
   \<and> trans_inputs [(''avg_num_persons'', Num 15)] = Some (15, 0, 0)
   \<and> (\<exists>outs s.
        transition_run
          [[(''avg_num_persons'', Num 10), (''num_persons_in_zone'', Num 1),
            (''num_people_in_high_risk_zone'', Num 1)],
           [(''avg_num_persons'', Num 10), (''num_persons_in_zone'', Num 3),
            (''num_people_in_high_risk_zone'', Num 3)]]
          (ActivityTransitionFeatures_init 5 (1 / 2)) = Inr (outs, s)
      \<and> trans_person_count_history s = [Num 10, Num 10]
      \<and> zone_count_history s = [Num 1, Num 3]
      \<and> high_risk_history s = [Num 1, Num 3]
      \<and> transition_extract [(''avg_num_persons'', Num 15)] s
          = Inr ([(''activity_change_rate'', Num (5000000 / 10000001)),
                  (''zone_transition_count'', Num 1),
                  (''risk_transition_score'', Num (1000000 / 2000001))],
                 trans_update_history (Num 15) (Num 0) (Num 0) s)
      \<and> trans_person_count_history (trans_update_history (Num 15) (Num 0) (Num 0) s)
          = [Num 10, Num 10, Num 15]
      \<and> zone_count_history (trans_update_history (Num 15) (Num 0) (Num 0) s)
          = [Num 1, Num 3, Num 0]
      \<and> high_risk_history (trans_update_history (Num 15) (Num 0) (Num 0) s)
          = [Num 1, Num 3, Num 0])"
proof -
  let ?r1 = "[(''avg_num_persons'', Num 10), (''num_persons_in_zone'', Num 1),
              (''num_people_in_high_risk_zone'', Num 1)]"
  let ?r2 = "[(''avg_num_persons'', Num 10), (''num_persons_in_zone'', Num 3),
              (''num_people_in_high_risk_zone'', Num 3)]"
  let ?r = "[(''avg_num_persons'', Num 15)]"
  let ?vals = "[(10::real, 1::real, 1::real), (10, 3, 3)]"
  have rows: "map trans_inputs [?r1, ?r2] = map Some ?vals"
    by (simp add: trans_inputs_def row_get_def)
  have inp: "trans_inputs ?r = Some (15, 0, 0)"
    by (simp add: trans_inputs_def row_get_def)
  have h: "(2::nat) \<le> 5" and l: "2 \<le> length [?r1, ?r2]" by simp_all
  have m: "np_mean [10, 10] = 10" "np_mean [1, 3] = 2" by (simp_all add: np_mean_def)
  have sd: "np_std [1, 3] = 1" by (simp add: np_std_def np_mean_def)
  have rate: "np_clip (5 / (10 + eps)) 0 1 = 5000000 / 10000001"
    by (simp add: np_clip_def eps_def)
  have risk: "np_clip (1 / (2 + eps)) 0 1 = 1000000 / 2000001"
    by (simp add: np_clip_def eps_def)
  have rnd: "py_round 1 = 1" by (simp add: py_round_def)
  from transition_change_rate [OF h l rows inp, of "1 / 2"] obtain outs s where
    f: "transition_run [?r1, ?r2] (ActivityTransitionFeatures_init 5 (1 / 2)) = Inr (outs, s)"
      "trans_person_count_history s
         = map Num (drop (length [?r1, ?r2] - 5) (map fst ?vals))"
      "zone_count_history s
         = map Num (drop (length [?r1, ?r2] - 5) (map (\<lambda>v. fst (snd v)) ?vals))"
      "high_risk_history s
         = map Num (drop (length [?r1, ?r2] - 5) (map (\<lambda>v. snd (snd v)) ?vals))"
      "transition_extract ?r s
        = Inr ([(''activity_change_rate'',
                 Num (if np_mean (drop (length [?r1, ?r2] - 5) (map fst ?vals)) > 0
                      then np_clip
                             (\<bar>15 - np_mean (drop (length [?r1, ?r2] - 5) (map fst ?vals))\<bar>
                              / (np_mean (drop (length [?r1, ?r2] - 5) (map fst ?vals)) + eps))
                             0 1
                      else 0)),
                (''zone_transition_count'',
                 Num (of_int (py_round
                   (np_std (drop (length [?r1, ?r2] - 5) (map (\<lambda>v. fst (snd v)) ?vals)))))),
                (''risk_transition_score'',
                 Num (np_clip
                   (np_std (drop (length [?r1, ?r2] - 5) (map (\<lambda>v. snd (snd v)) ?vals))
                    / (np_mean (drop (length [?r1, ?r2] - 5) (map (\<lambda>v. snd (snd v)) ?vals))
                       + eps))
                   0 1))],
               trans_update_history (Num 15) (Num 0) (Num 0) s)"
      "trans_person_count_history (trans_update_history (Num 15) (Num 0) (Num 0) s)
         = deque_append 5 (trans_person_count_history s) (Num 15)"
      "zone_count_history (trans_update_history (Num 15) (Num 0) (Num 0) s)
         = deque_append 5 (zone_count_history s) (Num 0)"
      "high_risk_history (trans_update_history (Num 15) (Num 0) (Num 0) s)
         = deque_append 5 (high_risk_history s) (Num 0)"
    by blast
  have p: "trans_person_count_history s = [Num 10, Num 10]"
    "zone_count_history s = [Num 1, Num 3]" "high_risk_history s = [Num 1, Num 3]"
    using f(2,3,4) by simp_all
  have q: "transition_extract ?r s
          = Inr ([(''activity_change_rate'', Num (5000000 / 10000001)),
                  (''zone_transition_count'', Num 1),
                  (''risk_transition_score'', Num (1000000 / 2000001))],
                 trans_update_history (Num 15) (Num 0) (Num 0) s)"
    using f(5) by (simp add: m sd rate risk rnd)
  have u: "trans_person_count_history (trans_update_history (Num 15) (Num 0) (Num 0) s)
      = [Num 10, Num 10, Num 15]"
    "zone_count_history (trans_update_history (Num 15) (Num 0) (Num 0) s)
      = [Num 1, Num 3, Num 0]"
    "high_risk_history (trans_update_history (Num 15) (Num 0) (Num 0) s)
      = [Num 1, Num 3, Num 0]"
    using f(6,7,8) p by (simp_all add: deque_append_def)
  from h rows inp f(1) p q u show ?thesis by blast
qed

text \<open>
  The claim as written fails where the history's mean is zero: after two windows without
  persons, a window with one person gets a change rate of 0 from the code, while the
  claimed formula gives 1.
\<close>

theorem transition_zero_history_counterexample:
  "transition_run [[(''avg_num_persons'', Num 0)], [(''avg_num_persons'', Num 0)]]
      (ActivityTransitionFeatures_init 5 (1 / 2))
     = Inr ([trans_empty_features, trans_empty_features],
            \<lparr>trans_history_size = 5, person_change_threshold = 1 / 2,
             trans_person_count_history = [Num 0, Num 0],
             zone_count_history = [Num 0, Num 0], high_risk_history = [Num 0, Num 0]\<rparr>)
   \<and> map_of (fst (projr (transition_extract [(''avg_num_persons'', Num 1)]
            \<lparr>trans_history_size = 5, person_change_threshold = 1 / 2,
             trans_person_count_history = [Num 0, Num 0],
             zone_count_history = [Num 0, Num 0], high_risk_history = [Num 0, Num 0]\<rparr>)))
        ''activity_change_rate'' = Some (Num 0)
   \<and> np_clip (\<bar>1 - np_mean [0, 0]\<bar> / (np_mean [0, 0] + eps)) 0 1 = 1"
proof -
  have a: "transition_run [[(''avg_num_persons'', Num 0)], [(''avg_num_persons'', Num 0)]]
      (ActivityTransitionFeatures_init 5 (1 / 2))
     = Inr ([trans_empty_features, trans_empty_features],
            \<lparr>trans_history_size = 5, person_change_threshold = 1 / 2,
             trans_person_count_history = [Num 0, Num 0],
             zone_count_history = [Num 0, Num 0], high_risk_history = [Num 0, Num 0]\<rparr>)"
    by (simp add: transition_extract_def ActivityTransitionFeatures_init_def row_get_def
        trans_update_history_def deque_append_def py_bind_def Let_def)
  have b: "map_of (fst (projr (transition_extract [(''avg_num_persons'', Num 1)]
            \<lparr>trans_history_size = 5, person_change_threshold = 1 / 2,
             trans_person_count_history = [Num 0, Num 0],
             zone_count_history = [Num 0, Num 0], high_risk_history = [Num 0, Num 0]\<rparr>)))
        ''activity_change_rate'' = Some (Num 0)"
    by (simp add: transition_extract_def row_get_def py_bind_def np_numbers_def
        np_mean_def np_clip_def Let_def)
  have c: "np_clip (\<bar>1 - np_mean [0, 0]\<bar> / (np_mean [0, 0] + eps)) 0 1 = 1"
    by (simp add: np_mean_def np_clip_def eps_def)
  from a b c show ?thesis by blast
qed


section \<open>Zone extractor: what a degenerate projection does to a person\<close>

lemma person_step_nan:
  assumes "isnan (fst (person_plane_point H p)) \<or> isnan (snd (person_plane_point H p))"
  shows "person_step inside_test H n ts st p = st"
proof -
  obtain X Y where xy: "person_plane_point H p = (X, Y)"
    by (cases "person_plane_point H p") auto
  with assms have "X = FNaN \<or> Y = FNaN"
    by (cases X; cases Y) auto
  with xy show ?thesis
    by (cases X; cases Y) (auto simp: person_step_def)
qed

lemma apply_homography_zero_denominator:
  assumes "matvec_row (snd (snd H)) x y = Fl 0"
  shows "apply_homography x y H = (Fl 0, Fl 0)"
  using assms by (cases H) (auto simp: apply_homography_def Let_def)

lemma zone_extract_loop:
  assumes "homography self = Some H" and "zones self \<noteq> []"
    and "filter is_person df \<noteq> []"
  shows "zone_extract inside_test df self
    = zone_aggregate (zones self)
        (foldl (person_step inside_test H (length (filter is_person df))
                  (timestamp (hd (filter is_person df))))
               (zone_acc_empty, self) (filter is_person df))"
proof -
  from assms(3) have "df \<noteq> []" by auto
  with assms show ?thesis
    by (simp add: zone_extract_def zone_aggregate_def Let_def)
qed

lemma foldl_person_step_projects:
  "foldl (person_step inside_test H n ts) st ps
     = foldl (person_step inside_test H n ts) st (filter (projects H) ps)"
proof (induction ps arbitrary: st)
  case Nil
  then show ?case by simp
next
  case (Cons p ps)
  show ?case
  proof (cases "projects H p")
    case True
    with Cons.IH show ?thesis by simp
  next
    case False
    then have "person_step inside_test H n ts st p = st"
      by (intro person_step_nan) (auto simp: projects_def)
    with False Cons.IH show ?thesis by simp
  qed
qed

text \<open>
  Claim C6, as the code has it. The extractor projects a point of the person's box
  through the homography. On a window with persons (homography and zones given), what
  \<^verbatim>\<open>extract\<close> returns is the final aggregation of the loop run over exactly the persons
  whose projected point has no NaN coordinate, in their order, each still dividing the
  window duration by the number of all person rows: a person with a NaN coordinate is
  skipped (its turn leaves accumulators and memories as they were) and the persons after
  it are processed. When the homogeneous denominator is zero, the projection is the
  plane's origin (0, 0), which is not NaN: the person is not skipped, and is tested
  against every zone at the origin like any other point.
\<close>

theorem zone_projection_guards:
  "(homography self = Some H \<and> zones self \<noteq> [] \<and> filter is_person df \<noteq> [] \<longrightarrow>
      zone_extract inside_test df self
        = zone_aggregate (zones self)
            (foldl (person_step inside_test H (length (filter is_person df))
                      (timestamp (hd (filter is_person df))))
                   (zone_acc_empty, self)
                   (filter (\<lambda>p. \<not> isnan (fst (person_plane_point H p))
                                \<and> \<not> isnan (snd (person_plane_point H p)))
                           (filter is_person df))))
   \<and> (isnan (fst (person_plane_point H p)) \<or> isnan (snd (person_plane_point H p)) \<longrightarrow>
      person_step inside_test H n ts st p = st)
   \<and> (matvec_row (snd (snd H)) (bbox_x q) (bbox_y q + bbox_h q / 2) = Fl 0 \<longrightarrow>
      person_plane_point H q = (Fl 0, Fl 0)
      \<and> person_step inside_test H n ts st q
          = foldl (zone_step inside_test (zone_window_duration (snd st)) n ts (track_id q) 0 0)
              st (zones (snd st)))"
proof -
  have e: "zone_extract inside_test df self
        = zone_aggregate (zones self)
            (foldl (person_step inside_test H (length (filter is_person df))
                      (timestamp (hd (filter is_person df))))
                   (zone_acc_empty, self)
                   (filter (\<lambda>p. \<not> isnan (fst (person_plane_point H p))
                                \<and> \<not> isnan (snd (person_plane_point H p)))
                           (filter is_person df)))"
    if "homography self = Some H" "zones self \<noteq> []" "filter is_person df \<noteq> []"
  proof -
    have "projects H = (\<lambda>p. \<not> isnan (fst (person_plane_point H p))
                            \<and> \<not> isnan (snd (person_plane_point H p)))"
      by (rule ext) (simp add: projects_def)
    with zone_extract_loop [OF that, of inside_test]
      foldl_person_step_projects [of inside_test H "length (filter is_person df)"
        "timestamp (hd (filter is_person df))" "(zone_acc_empty, self)" "filter is_person df"]
    show ?thesis by simp
  qed
  have a: "person_step inside_test H n ts st p = st"
    if "isnan (fst (person_plane_point H p)) \<or> isnan (snd (person_plane_point H p))"
    using that by (rule person_step_nan)
  have c: "person_plane_point H q = (Fl 0, Fl 0)"
    if "matvec_row (snd (snd H)) (bbox_x q) (bbox_y q + bbox_h q / 2) = Fl 0"
    using apply_homography_zero_denominator [OF that]
    by (simp add: person_plane_point_def)
  have d: "person_step inside_test H n ts st q
      = foldl (zone_step inside_test (zone_window_duration (snd st)) n ts (track_id q) 0 0)
          st (zones (snd st))"
    if "matvec_row (snd (snd H)) (bbox_x q) (bbox_y q + bbox_h q / 2) = Fl 0"
    using c [OF that] by (simp add: person_step_def)
  from e a c d show ?thesis by blast
qed

text \<open>
  A run of the extractor on two persons: the first projects to a NaN coordinate and is
  skipped, the second, after it, has a zero denominator, is placed at the origin and
  counted, with half of the window's 10 seconds as its dwell time.
\<close>

theorem zone_projection_guards_witness:
  "homography (ZoneFeatures_init [origin_square] (Some nan_matrix) 10) = Some nan_matrix
   \<and> zones (ZoneFeatures_init [origin_square] (Some nan_matrix) 10) \<noteq> []
   \<and> filter is_person [far_person, demo_person] = [far_person, demo_person]
   \<and> isnan (fst (person_plane_point nan_matrix far_person))
   \<and> matvec_row (snd (snd nan_matrix)) (bbox_x demo_person)
        (bbox_y demo_person + bbox_h demo_person / 2) = Fl 0
   \<and> person_plane_point nan_matrix demo_person = (Fl 0, Fl 0)
   \<and> person_step point_in_polygon nan_matrix 2 0
        (zone_acc_empty, ZoneFeatures_init [origin_square] (Some nan_matrix) 10) far_person
       = (zone_acc_empty, ZoneFeatures_init [origin_square] (Some nan_matrix) 10)
   \<and> zone_extract point_in_polygon [far_person, demo_person]
        (ZoneFeatures_init [origin_square] (Some nan_matrix) 10)
       = zone_aggregate [origin_square]
           (foldl (zone_step point_in_polygon 10 2 0 7 0 0)
              (zone_acc_empty, ZoneFeatures_init [origin_square] (Some nan_matrix) 10)
              [origin_square])
   \<and> map_of (fst (zone_extract point_in_polygon [far_person, demo_person]
        (ZoneFeatures_init [origin_square] (Some nan_matrix) 10)))
        ''num_persons_in_zone'' = Some (Num 1)
   \<and> map_of (fst (zone_extract point_in_polygon [far_person, demo_person]
        (ZoneFeatures_init [origin_square] (Some nan_matrix) 10)))
        ''time_in_zone'' = Some (Num 5)"
proof -
  let ?self = "ZoneFeatures_init [origin_square] (Some nan_matrix) 10"
  let ?st = "(zone_acc_empty, ?self)"
  let ?df = "[far_person, demo_person]"
  have h: "homography ?self = Some nan_matrix" and zs: "zones ?self \<noteq> []"
    and zs': "zones ?self = [origin_square]" and wd: "zone_window_duration ?self = 10"
    by (simp_all add: ZoneFeatures_init_def)
  have f: "filter is_person ?df = ?df"
    by (simp add: is_person_def far_person_def demo_person_def det_def)
  then have f': "filter is_person ?df \<noteq> []" by simp
  have n: "isnan (fst (person_plane_point nan_matrix far_person))"
    by (simp add: person_plane_point_def apply_homography_def matvec_row_def nan_matrix_def
        far_person_def det_def Let_def)
  have z: "matvec_row (snd (snd nan_matrix)) (bbox_x demo_person)
      (bbox_y demo_person + bbox_h demo_person / 2) = Fl 0"
    by (simp add: matvec_row_def nan_matrix_def demo_person_def det_def)
  note g = zone_projection_guards [of ?self nan_matrix ?df point_in_polygon far_person
      2 0 ?st demo_person]
  have c: "person_plane_point nan_matrix demo_person = (Fl 0, Fl 0)"
    using g z by blast
  have a: "person_step point_in_polygon nan_matrix 2 0 ?st far_person = ?st"
    using g n by blast
  have d: "person_step point_in_polygon nan_matrix 2 0 ?st demo_person
      = foldl (zone_step point_in_polygon 10 2 0 7 0 0) ?st [origin_square]"
    using g z by (simp add: zs' wd demo_person_def det_def)
  have keep: "filter (\<lambda>p. \<not> isnan (fst (person_plane_point nan_matrix p))
                          \<and> \<not> isnan (snd (person_plane_point nan_matrix p))) ?df
      = [demo_person]"
    using n c by simp
  have ts: "timestamp (hd ?df) = 0"
    by (simp add: far_person_def det_def)
  have "zone_extract point_in_polygon ?df ?self
      = zone_aggregate (zones ?self)
          (foldl (person_step point_in_polygon nan_matrix (length (filter is_person ?df))
                    (timestamp (hd (filter is_person ?df))))
                 ?st
                 (filter (\<lambda>p. \<not> isnan (fst (person_plane_point nan_matrix p))
                              \<and> \<not> isnan (snd (person_plane_point nan_matrix p)))
                         (filter is_person ?df)))"
    using g h zs f' by blast
  then have e: "zone_extract point_in_polygon ?df ?self
      = zone_aggregate [origin_square]
          (foldl (zone_step point_in_polygon 10 2 0 7 0 0) ?st [origin_square])"
    using d by (simp only: f keep zs' ts) (simp add: eval_nat_numeral)
  note adefs = zone_aggregate_def zone_step_def point_in_polygon_def crosses_def dd_add_def
    dd_plus_def zone_acc_empty_def ZoneFeatures_init_def dict_update_def Let_def
    origin_square_def
  have i: "map_of (fst (zone_extract point_in_polygon ?df ?self))
      ''num_persons_in_zone'' = Some (Num 1)"
    unfolding e by (simp add: adefs upt_rec)
  have j: "map_of (fst (zone_extract point_in_polygon ?df ?self))
      ''time_in_zone'' = Some (Num 5)"
    unfolding e by (simp add: adefs upt_rec)
  from h zs f n z c a e i j show ?thesis by blast
qed

text \<open>
  The claim as written fails on a zero denominator. With a matrix of zeros every
  denominator is zero; the person is then placed at the origin, found inside the square
  around it, and counted: \<^verbatim>\<open>num_persons_in_zone\<close> is 1 and an entry event is recorded,
  where a skipped person would leave both at 0.
\<close>

theorem zone_zero_denominator_counterexample:
  "matvec_row (snd (snd zero_matrix)) (bbox_x demo_person)
      (bbox_y demo_person + bbox_h demo_person / 2) = Fl 0
   \<and> map_of (fst (zone_extract point_in_polygon [demo_person]
        (ZoneFeatures_init [origin_square] (Some zero_matrix) 10)))
        ''num_persons_in_zone'' = Some (Num 1)
   \<and> map_of (fst (zone_extract point_in_polygon [demo_person]
        (ZoneFeatures_init [origin_square] (Some zero_matrix) 10)))
        ''zone_entry_exit_events'' = Some (Num 1)"
proof -
  note zdefs = zone_extract_def person_step_def person_plane_point_def apply_homography_def
    matvec_row_def zone_step_def point_in_polygon_def crosses_def dd_add_def dd_plus_def
    zone_acc_empty_def ZoneFeatures_init_def dict_update_def is_person_def det_def Let_def
    origin_square_def zero_matrix_def demo_person_def
  have z: "matvec_row (snd (snd zero_matrix)) (bbox_x demo_person)
      (bbox_y demo_person + bbox_h demo_person / 2) = Fl 0"
    by (simp add: matvec_row_def zero_matrix_def)
  have a: "map_of (fst (zone_extract point_in_polygon [demo_person]
        (ZoneFeatures_init [origin_square] (Some zero_matrix) 10)))
        ''num_persons_in_zone'' = Some (Num 1)"
    by (simp add: zdefs upt_rec)
  have b: "map_of (fst (zone_extract point_in_polygon [demo_person]
        (ZoneFeatures_init [origin_square] (Some zero_matrix) 10)))
        ''zone_entry_exit_events'' = Some (Num 1)"
    by (simp add: zdefs upt_rec)
  from z a b show ?thesis by blast
qed


section \<open>Empty input: the rows of the six window extractors\<close>

text \<open>
  Claim C7, as the code has it. On an empty window every window extractor returns its
  zero row (the zone extractor also when it has no zones or no homography, the human
  extractor also when the window has no person): every field of these rows is the number
  0, except \<^verbatim>\<open>first_entry_time\<close> and \<^verbatim>\<open>last_exit_time\<close> of the zone extractor's row,
  which are None. The rows have 9, 9, 7, 7, 7 and 8 fields.
\<close>

theorem empty_input_rows:
  "human_extract hf [] = human_zero_row
   \<and> (filter is_person w = [] \<longrightarrow> human_extract hf w = human_zero_row)
   \<and> epi_extract [] ef = (epi_empty_features, ef)
   \<and> machine_extract mf [] = machine_empty_features
   \<and> proximity_extract utils_distance pf [] = proximity_empty_features
   \<and> temporal_extract tf [] = temporal_empty_features
   \<and> zone_extract inside_test [] zf = (zone_empty_features, zf)
   \<and> (zones zf = [] \<or> homography zf = None \<longrightarrow>
         zone_extract inside_test df zf = (zone_empty_features, zf))
   \<and> (\<forall>kv \<in> set (human_zero_row @ epi_empty_features @ machine_empty_features
                     @ proximity_empty_features @ temporal_empty_features).
         snd kv = Num 0)
   \<and> (\<forall>kv \<in> set zone_empty_features.
         fst kv \<noteq> ''first_entry_time'' \<and> fst kv \<noteq> ''last_exit_time'' \<longrightarrow> snd kv = Num 0)
   \<and> map_of zone_empty_features ''first_entry_time'' = Some NoneV
   \<and> map_of zone_empty_features ''last_exit_time'' = Some NoneV
   \<and> map length [human_zero_row, epi_empty_features, machine_empty_features,
                  proximity_empty_features, temporal_empty_features, zone_empty_features]
       = [9, 9, 7, 7, 7, 8]"
proof -
  have h1: "human_extract hf [] = human_zero_row"
    by (simp add: human_extract_def)
  have h2: "filter is_person w = [] \<longrightarrow> human_extract hf w = human_zero_row"
    by (simp add: human_extract_def)
  have e: "epi_extract [] ef = (epi_empty_features, ef)"
    by (simp add: epi_extract_def)
  have m: "machine_extract mf [] = machine_empty_features"
    by (simp add: machine_extract_def)
  have p: "proximity_extract utils_distance pf [] = proximity_empty_features"
    by (simp add: proximity_extract_def)
  have t: "temporal_extract tf [] = temporal_empty_features"
    by (simp add: temporal_extract_def)
  have z1: "zone_extract inside_test [] zf = (zone_empty_features, zf)"
    by (simp add: zone_extract_def split: option.splits)
  have z2: "zones zf = [] \<or> homography zf = None \<longrightarrow>
      zone_extract inside_test df zf = (zone_empty_features, zf)"
    by (auto simp: zone_extract_def split: option.splits)
  have n1: "\<forall>kv \<in> set (human_zero_row @ epi_empty_features @ machine_empty_features
                     @ proximity_empty_features @ temporal_empty_features). snd kv = Num 0"
    by (simp add: human_zero_row_def epi_empty_features_def machine_empty_features_def
        proximity_empty_features_def temporal_empty_features_def)
  have n2: "\<forall>kv \<in> set zone_empty_features.
      fst kv \<noteq> ''first_entry_time'' \<and> fst kv \<noteq> ''last_exit_time'' \<longrightarrow> snd kv = Num 0"
    by (simp add: zone_empty_features_def)
  have n3: "map_of zone_empty_features ''first_entry_time'' = Some NoneV"
    "map_of zone_empty_features ''last_exit_time'' = Some NoneV"
    by (simp_all add: zone_empty_features_def)
  have l: "map length [human_zero_row, epi_empty_features, machine_empty_features,
      proximity_empty_features, temporal_empty_features, zone_empty_features]
       = [9, 9, 7, 7, 7, 8]"
    by (simp add: human_zero_row_def epi_empty_features_def machine_empty_features_def
        proximity_empty_features_def temporal_empty_features_def zone_empty_features_def)
  from h1 h2 e m p t z1 z2 n1 n2 n3 l show ?thesis by blast
qed

theorem empty_input_rows_witness:
  "filter is_person [det 12 ''vehicle'' 50 50 30 30 2] = []
   \<and> human_extract (HumanPresenceFeatures_init 1920 1080 2) [det 12 ''vehicle'' 50 50 30 30 2]
       = human_zero_row
   \<and> zones (ZoneFeatures_init [] None 10) = []
   \<and> zone_extract point_in_polygon violation_window (ZoneFeatures_init [] None 10)
       = (zone_empty_features, ZoneFeatures_init [] None 10)
   \<and> temporal_extract \<lparr>td_window_duration = 10, sudden_stop_threshold = 1 / 2,
         high_speed_threshold = 50, near_machine_distance = 150\<rparr> []
       = temporal_empty_features
   \<and> snd (''avg_person_speed'', Num 0) = Num 0
   \<and> snd (''time_in_zone'', Num 0) = Num 0"
proof -
  have f: "filter is_person [det 12 ''vehicle'' 50 50 30 30 2] = []"
    by (simp add: is_person_def det_def)
  have z: "zones (ZoneFeatures_init [] None 10) = []"
    by (simp add: ZoneFeatures_init_def)
  note th = empty_input_rows [of "HumanPresenceFeatures_init 1920 1080 2"
      "[det 12 ''vehicle'' 50 50 30 30 2]" "EPIFeatures_init 10 3"
      "\<lparr>mach_window_duration = 10\<rparr>" "\<lambda>a b c d. 0"
      "\<lparr>prox_window_duration = 10, danger_distance_pp = 100, danger_distance_pm = 150\<rparr>"
      "\<lparr>td_window_duration = 10, sudden_stop_threshold = 1 / 2,
         high_speed_threshold = 50, near_machine_distance = 150\<rparr>"
      point_in_polygon "ZoneFeatures_init [] None 10" violation_window]
  have a: "human_extract (HumanPresenceFeatures_init 1920 1080 2)
      [det 12 ''vehicle'' 50 50 30 30 2] = human_zero_row"
    using th f by blast
  have b: "zone_extract point_in_polygon violation_window (ZoneFeatures_init [] None 10)
      = (zone_empty_features, ZoneFeatures_init [] None 10)"
    using th z by blast
  have c: "temporal_extract \<lparr>td_window_duration = 10, sudden_stop_threshold = 1 / 2,
         high_speed_threshold = 50, near_machine_distance = 150\<rparr> [] = temporal_empty_features"
    using th by blast
  from f a z b c show ?thesis by simp
qed

text \<open>
  The claim as written fails for the zone extractor: two fields of its empty row are
  None, not numbers.
\<close>

theorem zone_empty_row_counterexample:
  "map_of (fst (zone_extract point_in_polygon [] (ZoneFeatures_init [] None 10)))
      ''first_entry_time'' = Some NoneV
   \<and> map_of (fst (zone_extract point_in_polygon [] (ZoneFeatures_init [] None 10)))
      ''last_exit_time'' = Some NoneV"
  by (simp add: zone_extract_def ZoneFeatures_init_def zone_empty_features_def)


section \<open>Activity stability extractor: neutral start and persistence score\<close>








section \<open>Proximity extractor: which points the distances are taken between\<close>

text \<open>
  Claim C9 says the distances are between the centres of the boxes. The code takes them
  between the stored anchor points \<^verbatim>\<open>(bbox_x, bbox_y)\<close>, which the detection stage
  writes as the top-left corner. Two persons whose boxes share the corner (0, 0) and have
  sizes 6 x 8 and 12 x 16 are at centre distance 5, and the extractor reports a mean,
  deviation and minimum person-person distance of 0; a person and a machine with the
  same two boxes get a mean and minimum person-machine distance of 0 likewise.
\<close>

theorem proximity_anchor_distance:
  "map_of (proximity_extract utils_distance
        \<lparr>prox_window_duration = 10, danger_distance_pp = 100, danger_distance_pm = 150\<rparr>
        [det 0 ''person'' 0 0 6 8 1, det 0 ''person'' 0 0 12 16 2])
      ''min_person_person_distance'' = Some (Num 0)
   \<and> map_of (proximity_extract utils_distance
        \<lparr>prox_window_duration = 10, danger_distance_pp = 100, danger_distance_pm = 150\<rparr>
        [det 0 ''person'' 0 0 6 8 1, det 0 ''person'' 0 0 12 16 2])
      ''avg_person_person_distance'' = Some (Num 0)
   \<and> map_of (proximity_extract utils_distance
        \<lparr>prox_window_duration = 10, danger_distance_pp = 100, danger_distance_pm = 150\<rparr>
        [det 0 ''person'' 0 0 6 8 1, det 0 ''person'' 0 0 12 16 2])
      ''std_person_person_distance'' = Some (Num 0)
   \<and> map_of (proximity_extract utils_distance
        \<lparr>prox_window_duration = 10, danger_distance_pp = 100, danger_distance_pm = 150\<rparr>
        [det 0 ''person'' 0 0 6 8 1, det 0 ''vehicle'' 0 0 12 16 2])
      ''min_person_machine_distance'' = Some (Num 0)
   \<and> map_of (proximity_extract utils_distance
        \<lparr>prox_window_duration = 10, danger_distance_pp = 100, danger_distance_pm = 150\<rparr>
        [det 0 ''person'' 0 0 6 8 1, det 0 ''vehicle'' 0 0 12 16 2])
      ''avg_person_machine_distance'' = Some (Num 0)
   \<and> euclidean_distance (bbox_center (det 0 ''person'' 0 0 6 8 1))
        (bbox_center (det 0 ''person'' 0 0 12 16 2)) = 5"
proof -
  note defs = proximity_extract_def Let_def is_person_def is_machine_def det_def
    pairwise_distances_def cross_distances_def np_hypot_def np_std_def np_mean_def
  have a: "map_of (proximity_extract utils_distance
        \<lparr>prox_window_duration = 10, danger_distance_pp = 100, danger_distance_pm = 150\<rparr>
        [det 0 ''person'' 0 0 6 8 1, det 0 ''person'' 0 0 12 16 2])
      ''min_person_person_distance'' = Some (Num 0)"
    by (simp add: defs)
  have b: "map_of (proximity_extract utils_distance
        \<lparr>prox_window_duration = 10, danger_distance_pp = 100, danger_distance_pm = 150\<rparr>
        [det 0 ''person'' 0 0 6 8 1, det 0 ''person'' 0 0 12 16 2])
      ''avg_person_person_distance'' = Some (Num 0)"
    by (simp add: defs)
  have c: "map_of (proximity_extract utils_distance
        \<lparr>prox_window_duration = 10, danger_distance_pp = 100, danger_distance_pm = 150\<rparr>
        [det 0 ''person'' 0 0 6 8 1, det 0 ''person'' 0 0 12 16 2])
      ''std_person_person_distance'' = Some (Num 0)"
    by (simp add: defs)
  have d: "map_of (proximity_extract utils_distance
        \<lparr>prox_window_duration = 10, danger_distance_pp = 100, danger_distance_pm = 150\<rparr>
        [det 0 ''person'' 0 0 6 8 1, det 0 ''vehicle'' 0 0 12 16 2])
      ''min_person_machine_distance'' = Some (Num 0)"
    by (simp add: defs)
  have e: "map_of (proximity_extract utils_distance
        \<lparr>prox_window_duration = 10, danger_distance_pp = 100, danger_distance_pm = 150\<rparr>
        [det 0 ''person'' 0 0 6 8 1, det 0 ''vehicle'' 0 0 12 16 2])
      ''avg_person_machine_distance'' = Some (Num 0)"
    by (simp add: defs)
  have "sqrt ((3 - 6) ^ 2 + (4 - 8) ^ 2) = sqrt (5 ^ 2)" by simp
  then have f: "euclidean_distance (bbox_center (det 0 ''person'' 0 0 6 8 1))
        (bbox_center (det 0 ''person'' 0 0 12 16 2)) = 5"
    by (simp add: euclidean_distance_def bbox_center_def det_def)
  from a b c d e f show ?thesis by blast
qed


section \<open>Protective-equipment extractor: empty input\<close>

text \<open>
  Claim C10. On an empty window, or on a window without any person detection, the
  protective-equipment extractor returns the nine-field zero row, and the
  consecutive-violation counter (with the rest of the extractor's state) is unchanged.
\<close>

theorem epi_extract_empty_input:
  assumes "df = [] \<or> filter is_person df = []"
  shows "epi_extract df self = (epi_empty_features, self)
         \<and> length epi_empty_features = 9
         \<and> (\<forall>kv \<in> set epi_empty_features. snd kv = Num 0)
         \<and> consecutive_violation_count (snd (epi_extract df self))
             = consecutive_violation_count self"
  using assms by (auto simp: epi_extract_def epi_empty_features_def)

theorem epi_extract_empty_input_witness:
  "filter is_person [det 0 ''no_hardhat'' 10 10 4 4 7] = []
   \<and> epi_extract [det 0 ''no_hardhat'' 10 10 4 4 7]
        \<lparr>epi_window_duration = 5, persistent_threshold = 3, consecutive_violation_count = 2\<rparr>
      = (epi_empty_features,
         \<lparr>epi_window_duration = 5, persistent_threshold = 3, consecutive_violation_count = 2\<rparr>)"
proof -
  have h: "filter is_person [det 0 ''no_hardhat'' 10 10 4 4 7] = []"
    by (simp add: is_person_def det_def)
  show ?thesis
    using h epi_extract_empty_input [of "[det 0 ''no_hardhat'' 10 10 4 4 7]"
        "\<lparr>epi_window_duration = 5, persistent_threshold = 3, consecutive_violation_count = 2\<rparr>"]
    by simp
qed

end
